theory Spec2Isabelle
  imports Main "HOL-Library.Sublist"
begin

section \<open>Python values\<close>

text \<open>
  The class \<^verbatim>\<open>SpotWx\<close> stores whatever its caller passes, and \<^verbatim>\<open>_verify_inputs\<close> tells the
  values apart with \<^verbatim>\<open>isinstance\<close>, so the fields hold dynamically typed values. Strings are
  byte strings (UTF-8); every pattern the program looks for is ASCII.

  The program does three things with a float: it tests its type, it tests its truth value and
  it formats it into the URL. A float is therefore carried by its \<^verbatim>\<open>repr\<close>, the text that an
  f-string inserts for it. Python prints a zero as \<^verbatim>\<open>0.0\<close> or \<^verbatim>\<open>-0.0\<close> and nothing else so, which gives
  the truth value.
\<close>

datatype pyfloat = Float (float_repr: string)

datatype pyval = PyNone | PyBool bool | PyInt int | PyFloat pyfloat | PyStr string

text \<open>The characters that the \<^verbatim>\<open>repr\<close> of a float is made of: digits, sign, point, exponent
  mark and the letters of \<^verbatim>\<open>inf\<close> and \<^verbatim>\<open>nan\<close>.\<close>

definition wf_float :: "pyval \<Rightarrow> bool" where
  "wf_float v = (case v of
      PyFloat f \<Rightarrow> float_repr f \<noteq> [] \<and> set (float_repr f) \<subseteq> set ''0123456789.+-einfa''
    | _ \<Rightarrow> True)"

text \<open>The exceptions the program can end with, each with its message. \<open>Unmodelled\<close> is no
  exception of Python: it marks an input on which the behaviour of a library is not part of this
  model (what it is says its argument), and no property below is drawn from it.\<close>

datatype py_error =
    TypeError string
  | ValueError string
  | AttributeError string
  | JSONDecodeError
  | OSError
  | Unmodelled string

definition is_str :: "pyval \<Rightarrow> bool" where
  "is_str v = (case v of PyStr _ \<Rightarrow> True | _ \<Rightarrow> False)"

definition is_float :: "pyval \<Rightarrow> bool" where
  "is_float v = (case v of PyFloat _ \<Rightarrow> True | _ \<Rightarrow> False)"

text \<open>The truth value that \<^verbatim>\<open>if x:\<close> tests.\<close>

fun truthy :: "pyval \<Rightarrow> bool" where
  "truthy PyNone = False"
| "truthy (PyBool b) = b"
| "truthy (PyInt i) = (i \<noteq> 0)"
| "truthy (PyFloat f) = (float_repr f \<noteq> ''0.0'' \<and> float_repr f \<noteq> ''-0.0'')"
| "truthy (PyStr s) = (s \<noteq> [])"

fun digits :: "nat \<Rightarrow> string" where
  "digits n = (if n < 10 then [''0123456789'' ! n]
               else digits (n div 10) @ [''0123456789'' ! (n mod 10)])"

definition str_int :: "int \<Rightarrow> string" where
  "str_int i = (if i < 0 then ''-'' @ digits (nat (- i)) else digits (nat i))"

text \<open>The text that an f-string field \<^verbatim>\<open>{x}\<close> inserts.\<close>

fun py_format :: "pyval \<Rightarrow> string" where
  "py_format PyNone = ''None''"
| "py_format (PyBool b) = (if b then ''True'' else ''False'')"
| "py_format (PyInt i) = str_int i"
| "py_format (PyFloat f) = float_repr f"
| "py_format (PyStr s) = s"

definition endswith :: "string \<Rightarrow> string \<Rightarrow> bool" where
  "endswith s suf = (length suf \<le> length s \<and> drop (length s - length suf) s = suf)"

text \<open>\<^verbatim>\<open>x in xs\<close> for a list of strings: a value that is not a string equals none of them.\<close>

definition py_in :: "pyval \<Rightarrow> string list \<Rightarrow> bool" where
  "py_in v xs = (case v of PyStr s \<Rightarrow> s \<in> set xs | _ \<Rightarrow> False)"

text \<open>\<^verbatim>\<open>d.get(k, None)\<close> on a dictionary from strings to strings.\<close>

definition dict_get :: "(string \<times> string) list \<Rightarrow> pyval \<Rightarrow> pyval" where
  "dict_get d k = (case k of
      PyStr s \<Rightarrow> (case map_of d s of Some v \<Rightarrow> PyStr v | None \<Rightarrow> PyNone)
    | _ \<Rightarrow> PyNone)"

text \<open>The \<^verbatim>\<open>repr\<close> of a list of strings that hold no quote, backslash or unprintable
  character, which is what the error messages print.\<close>

fun join :: "string \<Rightarrow> string list \<Rightarrow> string" where
  "join sep [] = []"
| "join sep [x] = x"
| "join sep (x # y # ys) = x @ sep @ join sep (y # ys)"

definition repr_list :: "string list \<Rightarrow> string" where
  "repr_list xs = ''['' @ join '', '' (map (\<lambda>x. [CHR 0x27] @ x @ [CHR 0x27]) xs) @ '']''"

section \<open>The class SpotWx\<close>

text \<open>The attributes \<^verbatim>\<open>model\<close> and \<^verbatim>\<open>url\<close> do not exist until \<^verbatim>\<open>_create_url\<close> assigns them
  (\<^verbatim>\<open>__init__\<close> sets \<^verbatim>\<open>URL\<close>, in capitals, which nothing reads).\<close>

record spotwx =
  csv_path :: pyval
  model_request :: pyval
  lat :: pyval
  lon :: pyval
  timezone :: pyval
  display :: pyval
  URL :: pyval
  title :: pyval
  zone :: pyval
  model :: "pyval option"
  url :: "string option"

definition model_dict :: "(string \<times> string) list" where
  "model_dict =
    [(''hrdps'', ''hrdps_1km_west''),
     (''hrdps_continental'', ''hrdps_continental''),
     (''rdps'', ''rdps_10km''),
     (''gdps'', ''gem_glb_15km''),
     (''geps'', ''geps_0p5_raw''),
     (''rap'', ''rap_awp''),
     (''nam'', ''nam_awphys''),
     (''sref'', ''sref_pgrb''),
     (''gfs'', ''gfs_pgrb2''),
     (''gfs_uv_index'', ''gfs_uv''),
     (''short_meteocode'', ''meteocode''),
     (''ext_meteocode'', ''meteocode'')]"

definition title_dict :: "(string \<times> string) list" where
  "title_dict =
    [(''short_meteocode'', ''FPVR14''),
     (''ext_meteocode'', ''FPVR54'')]"

definition timezone_list :: "string list" where
  "timezone_list =
    [''America/Vancouver'', ''America/Edmonton'', ''America/Regina'', ''America/Winnipeg'',
     ''America/Toronto'', ''America/Montreal'', ''America/St_Johns'', ''America/Halifax'',
     ''America/Goose_Bay'', ''America/Whitehorse'', ''America/Yellowknife'',
     ''America/Rankin_Inlet'', ''America/Iqaluit'', ''America/Cambridge_Bay'',
     ''America/Coral_Harbour'']"

definition display_list :: "string list" where
  "display_list = [''table'', ''table_prometheus'']"

definition init :: "pyval \<Rightarrow> pyval \<Rightarrow> pyval \<Rightarrow> pyval \<Rightarrow> pyval \<Rightarrow> pyval \<Rightarrow> spotwx" where
  "init a_csv_path a_model_request a_lat a_lon a_timezone a_display =
    \<lparr>csv_path = a_csv_path, model_request = a_model_request, lat = a_lat, lon = a_lon,
     timezone = a_timezone, display = a_display, URL = PyNone, title = PyNone, zone = PyNone,
     model = None, url = None\<rparr>"

subsection \<open>Validation\<close>

text \<open>The exceptions that \<^verbatim>\<open>_verify_inputs\<close> raises, with their messages.\<close>

definition csv_path_type_error :: py_error where
  \<open>csv_path_type_error = TypeError ''The "csv_path" input parameter must be a str datatype''\<close>

definition csv_path_value_error :: py_error where
  \<open>csv_path_value_error =
    ValueError (''The "csv_path" input parameter must be a path to a csv file, ''
                @ ''including a ".csv" extension'')\<close>

definition model_request_type_error :: py_error where
  \<open>model_request_type_error =
    TypeError ''The "model_request" input parameter must be a str datatype''\<close>

definition model_request_value_error :: py_error where
  \<open>model_request_value_error =
    ValueError (''The "model_request" input parameter must be one of the following values:''
                @ [CHR 0x0A] @ repr_list (map fst model_dict))\<close>

definition lat_error :: py_error where
  \<open>lat_error = ValueError ''The "lat" input parameter must be a float datatype''\<close>

definition lon_error :: py_error where
  \<open>lon_error = ValueError ''The "lon" input parameter must be a float datatype''\<close>

definition timezone_type_error :: py_error where
  \<open>timezone_type_error = TypeError ''The "timezone" input parameter must be a str datatype''\<close>

definition timezone_value_error :: py_error where
  \<open>timezone_value_error =
    ValueError (''The "timezone" input parameter must be one of the following values:''
                @ [CHR 0x0A] @ repr_list timezone_list)\<close>

definition display_type_error :: py_error where
  \<open>display_type_error = TypeError ''The "display" input parameter must be a str datatype''\<close>

definition display_value_error :: py_error where
  \<open>display_value_error =
    ValueError (''The "display" input parameter must be one of the following values:''
                @ [CHR 0x0A] @ repr_list display_list)\<close>

text \<open>One function for each block of \<^verbatim>\<open>_verify_inputs\<close>; it gives the exception the block
  raises, if it raises.\<close>

definition check_csv_path :: "pyval \<Rightarrow> py_error option" where
  "check_csv_path v =
    (case v of
       PyStr p \<Rightarrow> if \<not> endswith p ''.csv'' then Some csv_path_value_error else None
     | _ \<Rightarrow> Some csv_path_type_error)"

definition check_model_request :: "pyval \<Rightarrow> py_error option" where
  "check_model_request v =
    (if \<not> is_str v then Some model_request_type_error
     else if \<not> py_in v (map fst model_dict) then Some model_request_value_error
     else None)"

definition check_lat :: "pyval \<Rightarrow> py_error option" where
  "check_lat v = (if \<not> is_float v then Some lat_error else None)"

definition check_lon :: "pyval \<Rightarrow> py_error option" where
  "check_lon v = (if \<not> is_float v then Some lon_error else None)"

definition check_timezone :: "pyval \<Rightarrow> py_error option" where
  "check_timezone v =
    (if \<not> is_str v then Some timezone_type_error
     else if \<not> py_in v timezone_list then Some timezone_value_error
     else None)"

definition check_display :: "pyval \<Rightarrow> py_error option" where
  "check_display v =
    (if \<not> is_str v then Some display_type_error
     else if \<not> py_in v display_list then Some display_value_error
     else None)"

text \<open>The blocks run in the order of the source; the first exception ends the call.\<close>

fun first_error :: "py_error option list \<Rightarrow> py_error + unit" where
  "first_error [] = Inr ()"
| "first_error (None # cs) = first_error cs"
| "first_error (Some e # cs) = Inl e"

definition verify_inputs :: "spotwx \<Rightarrow> py_error + unit" where
  "verify_inputs s = first_error
    [check_csv_path (csv_path s),
     check_model_request (model_request s),
     check_lat (lat s),
     check_lon (lon s),
     check_timezone (timezone s),
     check_display (display s)]"

subsection \<open>URL construction\<close>

definition add_param :: "string \<Rightarrow> pyval \<Rightarrow> string \<Rightarrow> string" where
  "add_param key v u = (if truthy v then u @ key @ py_format v else u)"

definition create_url :: "spotwx \<Rightarrow> spotwx" where
  "create_url s =
    (let m = dict_get model_dict (model_request s);
         t = dict_get title_dict (model_request s);
         u = ''https://spotwx.com/products/grib_index.php?'';
         u = add_param ''model='' m u;
         u = add_param ''&title='' t u;
         u = add_param ''&lat='' (lat s) u;
         u = add_param ''&lon='' (lon s) u;
         u = add_param ''&zone='' (zone s) u;
         u = add_param ''&tz='' (timezone s) u;
         u = add_param ''&display='' (display s) u
     in s\<lparr>model := Some m, title := t, url := Some u\<rparr>)"

subsection \<open>The two regular expressions and the quote replacement\<close>

text \<open>\<^verbatim>\<open>split_at_first pat s\<close> cuts \<^verbatim>\<open>s\<close> at the leftmost occurrence of \<^verbatim>\<open>pat\<close>: the text
  before it and the text after it.\<close>

fun split_at_first :: "string \<Rightarrow> string \<Rightarrow> (string \<times> string) option" where
  "split_at_first pat [] = (if pat = [] then Some ([], []) else None)"
| "split_at_first pat (c # cs) =
    (if prefix pat (c # cs) then Some ([], drop (length pat) (c # cs))
     else (case split_at_first pat cs of
             None \<Rightarrow> None
           | Some (a, b) \<Rightarrow> Some (c # a, b)))"

text \<open>\<^verbatim>\<open>re.compile(r'var aDataSet =')\<close>, as \<^verbatim>\<open>soup.find\<close> searches it in the text of a script.\<close>

definition has_aDataSet :: "string \<Rightarrow> bool" where
  "has_aDataSet t = sublist ''var aDataSet ='' t"

text \<open>\<^verbatim>\<open>soup.find('script', text=...)\<close>: the first script element whose string matches. The
  argument is the \<^verbatim>\<open>.string\<close> of each script element, in document order (\<^verbatim>\<open>None\<close> for an
  element without a single text child).\<close>

definition find_script :: "string option list \<Rightarrow> string option" where
  "find_script scripts =
    (case List.find (\<lambda>s. case s of Some t \<Rightarrow> has_aDataSet t | None \<Rightarrow> False) scripts of
       Some (Some t) \<Rightarrow> Some t
     | _ \<Rightarrow> None)"

text \<open>\<^verbatim>\<open>re.search(r'var aDataSet = (\[.*?\]);', script_text, re.DOTALL)\<close>, group 1. The match
  starts at the leftmost \<^verbatim>\<open>var aDataSet = [\<close>; the lazy \<^verbatim>\<open>.*?\<close> (any character, with DOTALL)
  stops at the first \<^verbatim>\<open>];\<close> after it. When no \<^verbatim>\<open>];\<close> follows the leftmost start, none follows a
  later start either, and the search gives \<^verbatim>\<open>None\<close>.\<close>

definition search_aDataSet :: "string \<Rightarrow> string option" where
  "search_aDataSet script_text =
    (case split_at_first ''var aDataSet = ['' script_text of
       None \<Rightarrow> None
     | Some (before, rest) \<Rightarrow>
         (case split_at_first ''];'' rest of
            None \<Rightarrow> None
          | Some (inner, after) \<Rightarrow> Some (''['' @ inner @ '']'')))"

text \<open>\<^verbatim>\<open>json_text.replace("'", '"')\<close>\<close>

definition replace_quotes :: "string \<Rightarrow> string" where
  "replace_quotes t = map (\<lambda>c. if c = CHR 0x27 then CHR 0x22 else c) t"

subsection \<open>The JSON decoder\<close>

text \<open>\<^verbatim>\<open>json.loads\<close> of the standard library, by its grammar. A number is kept as its text.
  A \<^verbatim>\<open>\u\<close> escape is outside the model.\<close>

datatype json =
    JNull
  | JBool bool
  | JNumber string
  | JString string
  | JArray "json list"
  | JObject "(string \<times> json) list"

definition is_ws :: "char \<Rightarrow> bool" where
  "is_ws c = (c = CHR '' '' \<or> c = CHR 0x09 \<or> c = CHR 0x0A \<or> c = CHR 0x0D)"

definition skip_ws :: "string \<Rightarrow> string" where
  "skip_ws cs = dropWhile is_ws cs"

definition is_digit :: "char \<Rightarrow> bool" where
  "is_digit c = (c \<in> set ''0123456789'')"

definition unescape :: "char \<Rightarrow> char option" where
  "unescape e =
    (if e = CHR 0x22 then Some (CHR 0x22)
     else if e = CHR 0x5C then Some (CHR 0x5C)
     else if e = CHR ''/'' then Some (CHR ''/'')
     else if e = CHR ''b'' then Some (CHR 0x08)
     else if e = CHR ''f'' then Some (CHR 0x0C)
     else if e = CHR ''n'' then Some (CHR 0x0A)
     else if e = CHR ''r'' then Some (CHR 0x0D)
     else if e = CHR ''t'' then Some (CHR 0x09)
     else None)"

text \<open>The characters of a string after its opening quote, up to the closing one. A control
  character inside a string is an error (the decoder is strict).\<close>

fun scan_string :: "string \<Rightarrow> py_error + (string \<times> string)" where
  "scan_string [] = Inl JSONDecodeError"
| "scan_string (c # cs) =
    (if c = CHR 0x22 then Inr ([], cs)
     else if c = CHR 0x5C then
       (case cs of
          [] \<Rightarrow> Inl JSONDecodeError
        | e # cs' \<Rightarrow>
            if e = CHR ''u'' then Inl (Unmodelled ''unicode escape'')
            else (case unescape e of
                    None \<Rightarrow> Inl JSONDecodeError
                  | Some d \<Rightarrow>
                      (case scan_string cs' of
                         Inl err \<Rightarrow> Inl err
                       | Inr (s, r) \<Rightarrow> Inr (d # s, r))))
     else if (of_char c :: nat) < 32 then Inl JSONDecodeError
     else (case scan_string cs of
             Inl err \<Rightarrow> Inl err
           | Inr (s, r) \<Rightarrow> Inr (c # s, r)))"

text \<open>The number pattern \<^verbatim>\<open>(-?(?:0|[1-9][0-9]*))(\.[0-9]+)?([eE][-+]?[0-9]+)?\<close>, matched at the
  head of the text: the number's text and what follows it.\<close>

definition scan_int :: "string \<Rightarrow> (string \<times> string) option" where
  "scan_int cs =
    (let (sign, r) = (case cs of c # r \<Rightarrow> if c = CHR ''-'' then (''-'', r) else ([], cs)
                               | [] \<Rightarrow> ([], cs))
     in case r of
          [] \<Rightarrow> None
        | d # r' \<Rightarrow>
            if d = CHR ''0'' then Some (sign @ ''0'', r')
            else if is_digit d then Some (sign @ takeWhile is_digit r, dropWhile is_digit r)
            else None)"

definition scan_frac :: "string \<Rightarrow> string \<times> string" where
  "scan_frac cs =
    (case cs of
       c # d # r \<Rightarrow>
         if c = CHR ''.'' \<and> is_digit d
         then (c # takeWhile is_digit (d # r), dropWhile is_digit (d # r))
         else ([], cs)
     | _ \<Rightarrow> ([], cs))"

definition scan_exp :: "string \<Rightarrow> string \<times> string" where
  "scan_exp cs =
    (case cs of
       c # r \<Rightarrow>
         if c = CHR ''e'' \<or> c = CHR ''E'' then
           (let (sign, r') = (case r of s # t \<Rightarrow> if s = CHR ''-'' \<or> s = CHR ''+'' then ([s], t)
                                                  else ([], r)
                                       | [] \<Rightarrow> ([], r))
            in case r' of
                 d # _ \<Rightarrow> if is_digit d
                          then (c # sign @ takeWhile is_digit r', dropWhile is_digit r')
                          else ([], cs)
               | [] \<Rightarrow> ([], cs))
         else ([], cs)
     | [] \<Rightarrow> ([], cs))"

definition scan_number :: "string \<Rightarrow> (string \<times> string) option" where
  "scan_number cs =
    (case scan_int cs of
       None \<Rightarrow> None
     | Some (ip, r1) \<Rightarrow>
         (let (fp, r2) = scan_frac r1; (ep, r3) = scan_exp r2
          in Some (ip @ fp @ ep, r3)))"

definition scan_word :: "string \<Rightarrow> (json \<times> string) option" where
  "scan_word cs =
    (if prefix ''null'' cs then Some (JNull, drop 4 cs)
     else if prefix ''true'' cs then Some (JBool True, drop 4 cs)
     else if prefix ''false'' cs then Some (JBool False, drop 5 cs)
     else (case scan_number cs of
             Some (n, r) \<Rightarrow> Some (JNumber n, r)
           | None \<Rightarrow>
               if prefix ''NaN'' cs then Some (JNumber ''NaN'', drop 3 cs)
               else if prefix ''Infinity'' cs then Some (JNumber ''Infinity'', drop 8 cs)
               else if prefix ''-Infinity'' cs then Some (JNumber ''-Infinity'', drop 9 cs)
               else None))"

text \<open>One value at the head of the text (the caller has skipped the white space before it).
  The first argument bounds the number of nested calls; \<^verbatim>\<open>json_loads\<close> starts it at twice the
  length of the text and two more.\<close>

fun parse_value :: "nat \<Rightarrow> string \<Rightarrow> py_error + (json \<times> string)"
  and parse_elements :: "nat \<Rightarrow> string \<Rightarrow> py_error + (json list \<times> string)"
  and parse_members :: "nat \<Rightarrow> string \<Rightarrow> py_error + ((string \<times> json) list \<times> string)"
where
  "parse_value 0 cs = Inl (Unmodelled ''recursion depth'')"
| "parse_value (Suc n) cs =
    (case cs of
       [] \<Rightarrow> Inl JSONDecodeError
     | c # r \<Rightarrow>
         if c = CHR 0x22 then
           (case scan_string r of
              Inl err \<Rightarrow> Inl err
            | Inr (s, r') \<Rightarrow> Inr (JString s, r'))
         else if c = CHR ''{'' then
           (case skip_ws r of
              [] \<Rightarrow> Inl JSONDecodeError
            | d # r' \<Rightarrow>
                if d = CHR ''}'' then Inr (JObject [], r')
                else (case parse_members n (d # r') of
                        Inl err \<Rightarrow> Inl err
                      | Inr (ms, r'') \<Rightarrow> Inr (JObject ms, r'')))
         else if c = CHR ''['' then
           (case skip_ws r of
              [] \<Rightarrow> Inl JSONDecodeError
            | d # r' \<Rightarrow>
                if d = CHR '']'' then Inr (JArray [], r')
                else (case parse_elements n (d # r') of
                        Inl err \<Rightarrow> Inl err
                      | Inr (vs, r'') \<Rightarrow> Inr (JArray vs, r'')))
         else (case scan_word cs of
                 None \<Rightarrow> Inl JSONDecodeError
               | Some (v, r') \<Rightarrow> Inr (v, r')))"
| "parse_elements 0 cs = Inl (Unmodelled ''recursion depth'')"
| "parse_elements (Suc n) cs =
    (case parse_value n cs of
       Inl err \<Rightarrow> Inl err
     | Inr (v, r) \<Rightarrow>
         (case skip_ws r of
            [] \<Rightarrow> Inl JSONDecodeError
          | c # r' \<Rightarrow>
              if c = CHR '']'' then Inr ([v], r')
              else if c = CHR '','' then
                (case parse_elements n (skip_ws r') of
                   Inl err \<Rightarrow> Inl err
                 | Inr (vs, r'') \<Rightarrow> Inr (v # vs, r''))
              else Inl JSONDecodeError))"
| "parse_members 0 cs = Inl (Unmodelled ''recursion depth'')"
| "parse_members (Suc n) cs =
    (case cs of
       [] \<Rightarrow> Inl JSONDecodeError
     | q # r0 \<Rightarrow>
         if q \<noteq> CHR 0x22 then Inl JSONDecodeError
         else (case scan_string r0 of
                 Inl err \<Rightarrow> Inl err
               | Inr (k, r1) \<Rightarrow>
                   (case skip_ws r1 of
                      [] \<Rightarrow> Inl JSONDecodeError
                    | c # r2 \<Rightarrow>
                        if c \<noteq> CHR '':'' then Inl JSONDecodeError
                        else (case parse_value n (skip_ws r2) of
                                Inl err \<Rightarrow> Inl err
                              | Inr (v, r3) \<Rightarrow>
                                  (case skip_ws r3 of
                                     [] \<Rightarrow> Inl JSONDecodeError
                                   | e # r4 \<Rightarrow>
                                       if e = CHR ''}'' then Inr ([(k, v)], r4)
                                       else if e = CHR '','' then
                                         (case parse_members n (skip_ws r4) of
                                            Inl err \<Rightarrow> Inl err
                                          | Inr (ms, r5) \<Rightarrow> Inr ((k, v) # ms, r5))
                                       else Inl JSONDecodeError)))))"

text \<open>\<^verbatim>\<open>json.loads\<close>: white space, one value, white space, end of text.\<close>

definition json_loads :: "string \<Rightarrow> py_error + json" where
  "json_loads t =
    (case parse_value (2 * length t + 2) (skip_ws t) of
       Inl err \<Rightarrow> Inl err
     | Inr (v, r) \<Rightarrow> if skip_ws r = [] then Inr v else Inl JSONDecodeError)"

subsection \<open>The table and the file written from it\<close>

definition headers :: "string list" where
  "headers = [''HOURLY'', ''HOUR'', ''TEMP'', ''RH'', ''WD'', ''WS'', ''PRECIP'']"

text \<open>\<^verbatim>\<open>df.to_csv(path, index=False)\<close>, of a table given by the texts of its cells: the header
  line and one line for each row, fields separated by commas, lines ended by a line feed. The
  writer quotes a field that holds a comma, a double quote or a line break, and doubles the
  double quotes inside it.\<close>

definition needs_quotes :: "string \<Rightarrow> bool" where
  "needs_quotes f = (\<exists>c \<in> set f. c = CHR '','' \<or> c = CHR 0x22 \<or> c = CHR 0x0A \<or> c = CHR 0x0D)"

definition csv_field :: "string \<Rightarrow> string" where
  "csv_field f =
    (if needs_quotes f
     then [CHR 0x22] @ concat (map (\<lambda>c. if c = CHR 0x22 then [c, c] else [c]) f) @ [CHR 0x22]
     else f)"

definition csv_line :: "string list \<Rightarrow> string" where
  "csv_line fs = join '','' (map csv_field fs) @ [CHR 0x0A]"

definition to_csv :: "string list \<Rightarrow> string list list \<Rightarrow> string" where
  "to_csv columns table = csv_line columns @ concat (map csv_line table)"

subsection \<open>The world outside the program\<close>

text \<open>What the program changes: the lines it prints, the GET requests it sends and the files
  it writes.\<close>

record world =
  stdout :: "string list"
  requests :: "string list"
  files :: "string \<rightharpoonup> string"

record response =
  status_code :: int
  response_text :: string

text \<open>What the program depends on and does not contain: the answer of the server to a GET
  request (or the exception \<^verbatim>\<open>requests.get\<close> raises), the script elements that
  \<^verbatim>\<open>BeautifulSoup(..., 'html.parser')\<close> finds in a page (the \<^verbatim>\<open>.string\<close> of each, in document
  order), the table that \<^verbatim>\<open>pd.DataFrame(data, columns=...)\<close> builds from decoded data (or the
  exception pandas raises), and whether a path can be written. The table is given by its rows,
  each cell as the text that \<^verbatim>\<open>to_csv\<close> prints for it: pandas infers a type for every column and
  formats the numbers of the column by it, which is arithmetic on floats and no part of this
  program.\<close>

record env =
  http_get :: "string \<Rightarrow> py_error + response"
  script_strings :: "string \<Rightarrow> string option list"
  DataFrame :: "json \<Rightarrow> string list \<Rightarrow> py_error + string list list"
  writable :: "string \<Rightarrow> bool"

definition print :: "string \<Rightarrow> world \<Rightarrow> world" where
  "print line w = w\<lparr>stdout := stdout w @ [line]\<rparr>"

subsection \<open>Retrieval and extraction\<close>

definition get_csv :: "env \<Rightarrow> spotwx \<Rightarrow> world \<Rightarrow> (py_error + unit) \<times> world" where
  \<open>get_csv e s w =
    (case url s of
       None \<Rightarrow>
         (Inl (AttributeError ([CHR 0x27] @ ''SpotWx'' @ [CHR 0x27] @ '' object has no attribute ''
                               @ [CHR 0x27] @ ''url'' @ [CHR 0x27])), w)
     | Some u \<Rightarrow>
         (let w = w\<lparr>requests := requests w @ [u]\<rparr>
          in case http_get e u of
               Inl err \<Rightarrow> (Inl err, w)
             | Inr response \<Rightarrow>
                 if status_code response = 200 then
                   (case find_script (script_strings e (response_text response)) of
                      Some script_text \<Rightarrow>
                        (case search_aDataSet script_text of
                           None \<Rightarrow>
                             (Inl (AttributeError
                                    ([CHR 0x27] @ ''NoneType'' @ [CHR 0x27]
                                     @ '' object has no attribute ''
                                     @ [CHR 0x27] @ ''group'' @ [CHR 0x27])), w)
                         | Some json_text \<Rightarrow>
                             (case json_loads (replace_quotes json_text) of
                                Inl err \<Rightarrow> (Inl err, w)
                              | Inr data \<Rightarrow>
                                  (case DataFrame e data headers of
                                     Inl err \<Rightarrow> (Inl err, w)
                                   | Inr df \<Rightarrow>
                                       (case csv_path s of
                                          PyStr p \<Rightarrow>
                                            if writable e p then
                                              (Inr (),
                                               print ''CSV file has been saved successfully.''
                                                 (w\<lparr>files := (files w)(p \<mapsto> to_csv headers df)\<rparr>))
                                            else (Inl OSError, w)
                                        | _ \<Rightarrow> (Inl (Unmodelled ''path that is not a string''), w)))))
                    | None \<Rightarrow>
                        (Inr (),
                         print ''JavaScript variable "aDataSet" not found in the HTML content.'' w))
                 else
                   (Inr (),
                    print (''Failed to retrieve data. Status code: ''
                           @ str_int (status_code response)) w)))\<close>

definition getSpotWx :: "env \<Rightarrow> spotwx \<Rightarrow> world \<Rightarrow> (py_error + unit) \<times> spotwx \<times> world" where
  "getSpotWx e s w =
    (case verify_inputs s of
       Inl err \<Rightarrow> (Inl err, s, w)
     | Inr _ \<Rightarrow>
         (let s = create_url s
          in case get_csv e s w of (r, w') \<Rightarrow> (r, s, w')))"

subsection \<open>The command line\<close>

datatype exit = Exit int | Uncaught py_error

text \<open>The argument is \<^verbatim>\<open>sys.argv[1:]\<close>.\<close>

definition main :: "env \<Rightarrow> string list \<Rightarrow> world \<Rightarrow> exit \<times> world" where
  "main e args w =
    (case args of
       [a_csv_path, a_model_request, a_lat, a_lon, a_timezone, a_display] \<Rightarrow>
         (case getSpotWx e
                 (init (PyStr a_csv_path) (PyStr a_model_request) (PyStr a_lat) (PyStr a_lon)
                    (PyStr a_timezone) (PyStr a_display)) w of
            (Inl err, s, w') \<Rightarrow> (Uncaught err, w')
          | (Inr _, s, w') \<Rightarrow> (Exit 0, w'))
     | _ \<Rightarrow>
         (Exit 1,
          print (''Six parameters are required to request a SpotWx forecast dataset (as csv):''
                 @ [CHR 0x0A] @ ''[csv_path, model_request, lat, lon, display].'') w))"

section \<open>Notions the properties are stated with\<close>

text \<open>\<^verbatim>\<open>s.split(c)\<close>: the pieces of a text between the occurrences of a character.\<close>

fun split_on :: "char \<Rightarrow> string \<Rightarrow> string list" where
  "split_on c [] = [[]]"
| "split_on c (x # xs) =
    (if x = c then [] # split_on c xs
     else (case split_on c xs of
             [] \<Rightarrow> [[x]]
           | p # ps \<Rightarrow> (x # p) # ps))"

text \<open>The keys of the query of a URL, in their order: the query follows the first question
  mark, its parameters are separated by ampersands, and a key ends at the first equals sign.\<close>

definition query_keys :: "string \<Rightarrow> string list" where
  "query_keys u =
    (case split_at_first ''?'' u of
       None \<Rightarrow> []
     | Some (before, query) \<Rightarrow> map (takeWhile (\<lambda>c. c \<noteq> CHR ''='')) (split_on (CHR ''&'') query))"

text \<open>The parameter sets that the specification calls valid: the path is a string that ends
  in the extension, the model is a key of the registry, latitude and longitude are floats, the
  time zone and the display mode are in their lists.\<close>

definition csv_path_ok :: "pyval \<Rightarrow> bool" where
  "csv_path_ok v = (\<exists>p. v = PyStr p \<and> endswith p ''.csv'')"

definition model_request_ok :: "pyval \<Rightarrow> bool" where
  "model_request_ok v = (\<exists>m. v = PyStr m \<and> m \<in> set (map fst model_dict))"

definition timezone_ok :: "pyval \<Rightarrow> bool" where
  "timezone_ok v = (\<exists>z. v = PyStr z \<and> z \<in> set timezone_list)"

definition display_ok :: "pyval \<Rightarrow> bool" where
  "display_ok v = (\<exists>d. v = PyStr d \<and> d \<in> set display_list)"

definition valid_params :: "spotwx \<Rightarrow> bool" where
  "valid_params s =
    (csv_path_ok (csv_path s) \<and> model_request_ok (model_request s) \<and>
     is_float (lat s) \<and> is_float (lon s) \<and>
     timezone_ok (timezone s) \<and> display_ok (display s))"

definition error_message :: "py_error \<Rightarrow> string" where
  "error_message err =
    (case err of
       TypeError m \<Rightarrow> m
     | ValueError m \<Rightarrow> m
     | AttributeError m \<Rightarrow> m
     | JSONDecodeError \<Rightarrow> []
     | OSError \<Rightarrow> []
     | Unmodelled m \<Rightarrow> m)"

definition validation_errors :: "py_error list" where
  "validation_errors =
    [csv_path_type_error, csv_path_value_error, model_request_type_error,
     model_request_value_error, lat_error, lon_error, timezone_type_error,
     timezone_value_error, display_type_error, display_value_error]"

text \<open>A value as a message prints it in the list of the allowed values: between single
  quotes.\<close>

definition quoted :: "string \<Rightarrow> string" where
  "quoted v = [CHR 0x27] @ v @ [CHR 0x27]"

definition prints_values :: "string list \<Rightarrow> string \<Rightarrow> bool" where
  "prints_values vs message = list_all (\<lambda>v. sublist (quoted v) message) vs"

text \<open>Reading a written file back: its lines (each ended by a line feed), and the fields
  of every line after the header, split at the commas.\<close>

definition file_lines :: "string \<Rightarrow> string list" where
  "file_lines content =
    (let pieces = split_on (CHR 0x0A) content
     in if last pieces = [] then butlast pieces else pieces)"

definition read_back :: "string \<Rightarrow> string list list" where
  "read_back content = map (split_on (CHR '','')) (tl (file_lines content))"

definition csv_plain :: "string \<Rightarrow> bool" where
  "csv_plain f =
    (CHR '','' \<notin> set f \<and> CHR 0x22 \<notin> set f \<and> CHR 0x0A \<notin> set f \<and> CHR 0x0D \<notin> set f)"

text \<open>Fields without a quote of either kind, and fields without a comma.\<close>

definition quote_free :: "string \<Rightarrow> bool" where
  "quote_free f = (CHR 0x27 \<notin> set f \<and> CHR 0x22 \<notin> set f)"

definition comma_free :: "string \<Rightarrow> bool" where
  "comma_free f = (CHR '','' \<notin> set f)"

text \<open>The array literal as the page writes it: rows in brackets, separated by commas, each
  field a string in single quotes.\<close>

definition js_string :: "string \<Rightarrow> string" where
  "js_string f = [CHR 0x27] @ f @ [CHR 0x27]"

definition js_row :: "string list \<Rightarrow> string" where
  "js_row r = ''['' @ join '','' (map js_string r) @ '']''"

definition js_array :: "string list list \<Rightarrow> string" where
  "js_array rows = ''['' @ join '','' (map js_row rows) @ '']''"

text \<open>A field that the extraction carries over unchanged: it holds no quote of either kind, no
  backslash and no control character, and nowhere a closing bracket followed by a semicolon.\<close>

definition js_plain :: "string \<Rightarrow> bool" where
  "js_plain f =
    (CHR 0x27 \<notin> set f \<and> CHR 0x22 \<notin> set f \<and> CHR 0x5C \<notin> set f \<and>
     (\<forall>c \<in> set f. 32 \<le> (of_char c :: nat)) \<and> \<not> sublist ''];'' f)"

text \<open>Two notions that only the proofs use: a text in which no closing bracket is followed
  by a semicolon and which does not begin with a semicolon (texts of this kind can be put one
  after another), and a text that the JSON decoder reads as it is between double quotes.\<close>

definition no_close :: "string \<Rightarrow> bool" where
  "no_close t = (\<not> sublist ''];'' t \<and> (t \<noteq> [] \<longrightarrow> hd t \<noteq> CHR '';''))"

definition str_plain :: "string \<Rightarrow> bool" where
  "str_plain f = (CHR 0x22 \<notin> set f \<and> CHR 0x5C \<notin> set f \<and> (\<forall>c \<in> set f. 32 \<le> (of_char c :: nat)))"

subsection \<open>Example data\<close>

definition example_request :: spotwx where
  "example_request =
    init (PyStr ''out.csv'') (PyStr ''gfs'') (PyFloat (Float ''51.0'')) (PyFloat (Float ''-114.0''))
      (PyStr ''America/Edmonton'') (PyStr ''table'')"

definition empty_world :: world where
  "empty_world = \<lparr>stdout = [], requests = [], files = Map.empty\<rparr>"

text \<open>The decoded data of rows of strings, and a table builder for the examples: rows of
  strings, as many in each row as there are columns, are the rows of the table as they are; the
  examples give it no other data.\<close>

definition string_rows :: "string list list \<Rightarrow> json" where
  "string_rows rows = JArray (map (\<lambda>r. JArray (map JString r)) rows)"

definition json_str :: "json \<Rightarrow> string option" where
  "json_str v = (case v of JString s \<Rightarrow> Some s | _ \<Rightarrow> None)"

definition json_row :: "json \<Rightarrow> string list option" where
  "json_row v =
    (case v of
       JArray cells \<Rightarrow>
         if list_all (\<lambda>c. json_str c \<noteq> None) cells then Some (map (\<lambda>c. the (json_str c)) cells)
         else None
     | _ \<Rightarrow> None)"

definition example_frame :: "json \<Rightarrow> string list \<Rightarrow> py_error + string list list" where
  "example_frame data columns =
    (case data of
       JArray rows \<Rightarrow>
         if list_all (\<lambda>r. json_row r \<noteq> None) rows \<and>
            list_all (\<lambda>r. length (the (json_row r)) = length columns) rows
         then Inr (map (\<lambda>r. the (json_row r)) rows)
         else Inl (Unmodelled ''data that the examples do not use'')
     | _ \<Rightarrow> Inl (Unmodelled ''data that the examples do not use''))"

text \<open>A server that answers every request with the given status and page, a page whose only
  script element holds the page's text, the table builder above, and a file system where every
  path can be written.\<close>

definition example_env :: "int \<Rightarrow> string \<Rightarrow> env" where
  "example_env code page =
    \<lparr>http_get = (\<lambda>u. Inr \<lparr>status_code = code, response_text = page\<rparr>),
     script_strings = (\<lambda>t. [Some t]),
     DataFrame = example_frame,
     writable = (\<lambda>p. True)\<rparr>"

text \<open>Two forecast rows, and a page whose script holds the assignment of the given rows and
  nothing else.\<close>

definition example_rows :: "string list list" where
  "example_rows =
    [[''2024-08-06'', ''12:00'', ''15.2'', ''60'', ''270'', ''10'', ''0.0''],
     [''2024-08-06'', ''13:00'', ''16.0'', ''58'', ''275'', ''12'', ''0.0'']]"

definition example_page :: "string list list \<Rightarrow> string" where
  "example_page rows = [] @ ''var aDataSet = '' @ js_array rows @ '';'' @ []"

section \<open>Validation: auxiliary facts\<close>

lemma first_error_Inr: "first_error cs = Inr () \<longleftrightarrow> (\<forall>c \<in> set cs. c = None)"
  by (induction cs rule: first_error.induct) auto

lemma verify_inputs_valid: "verify_inputs s = Inr () \<longleftrightarrow> valid_params s"
  by (cases "csv_path s"; cases "model_request s"; cases "timezone s"; cases "display s")
     (auto simp: verify_inputs_def valid_params_def check_csv_path_def check_model_request_def
        check_lat_def check_lon_def check_timezone_def check_display_def is_str_def py_in_def
        csv_path_ok_def model_request_ok_def timezone_ok_def display_ok_def)

section \<open>URL construction\<close>

text \<open>
  C2. For the request \<^verbatim>\<open>(out.csv, gfs, 51.0, -114.0, America/Edmonton, table)\<close>, which passes
  validation, \<^verbatim>\<open>_create_url\<close> builds the URL written out below. It contains the text
  \<^verbatim>\<open>model=gfs_pgrb2&lat=51.0&lon=-114.0&tz=America/Edmonton&display=table\<close> and contains neither
  \<^verbatim>\<open>title=\<close> nor \<^verbatim>\<open>zone=\<close>.
\<close>

theorem example_url:
  "verify_inputs example_request = Inr () \<and>
   (case url (create_url example_request) of
      None \<Rightarrow> False
    | Some u \<Rightarrow>
        u = ''https://spotwx.com/products/grib_index.php?model=gfs_pgrb2&lat=51.0&lon=-114.0&tz=America/Edmonton&display=table'' \<and>
        sublist ''model=gfs_pgrb2&lat=51.0&lon=-114.0&tz=America/Edmonton&display=table'' u \<and>
        \<not> sublist ''title='' u \<and> \<not> sublist ''zone='' u)"
  by code_simp

text \<open>
  C1, at a latitude of zero. The request \<^verbatim>\<open>(out.csv, gfs, 0.0, -114.0, America/Edmonton, table)\<close>
  passes validation, and the URL built for it has no \<^verbatim>\<open>lat\<close> parameter: \<^verbatim>\<open>if self.lat:\<close> tests the
  truth value of the latitude, and \<^verbatim>\<open>0.0\<close> is false. The keys of the query are model, lon, tz and
  display.
\<close>

theorem zero_lat_url:
  "verify_inputs (example_request\<lparr>lat := PyFloat (Float ''0.0'')\<rparr>) = Inr () \<and>
   url (create_url (example_request\<lparr>lat := PyFloat (Float ''0.0'')\<rparr>)) =
     Some ''https://spotwx.com/products/grib_index.php?model=gfs_pgrb2&lon=-114.0&tz=America/Edmonton&display=table'' \<and>
   query_keys ''https://spotwx.com/products/grib_index.php?model=gfs_pgrb2&lon=-114.0&tz=America/Edmonton&display=table''
     = [''model'', ''lon'', ''tz'', ''display'']"
  by code_simp

text \<open>
  C8. The URL that \<^verbatim>\<open>_create_url\<close> builds is a function of the six attributes it reads
  (model_request, lat, lon, zone, timezone, display) and of nothing else: two objects that agree
  on them get the same URL, character for character, whatever their other attributes (the path,
  an earlier \<^verbatim>\<open>url\<close>, \<^verbatim>\<open>title\<close> or \<^verbatim>\<open>model\<close>) hold, and a URL is always built. The function takes no
  clock, random source or environment.
\<close>

theorem create_url_deterministic:
  assumes "model_request s1 = model_request s2" and "lat s1 = lat s2" and "lon s1 = lon s2"
    and "zone s1 = zone s2" and "timezone s1 = timezone s2" and "display s1 = display s2"
  shows "url (create_url s1) = url (create_url s2) \<and> url (create_url s1) \<noteq> None"
  using assms by (simp add: create_url_def Let_def)

theorem create_url_deterministic_witness:
  "model_request example_request = model_request (example_request\<lparr>csv_path := PyStr ''b.csv'', url := Some ''x''\<rparr>) \<and>
   lat example_request = lat (example_request\<lparr>csv_path := PyStr ''b.csv'', url := Some ''x''\<rparr>) \<and>
   url (create_url example_request)
     = url (create_url (example_request\<lparr>csv_path := PyStr ''b.csv'', url := Some ''x''\<rparr>)) \<and>
   url (create_url example_request) \<noteq> None"
proof -
  have fields:
    "model_request example_request = model_request (example_request\<lparr>csv_path := PyStr ''b.csv'', url := Some ''x''\<rparr>)"
    "lat example_request = lat (example_request\<lparr>csv_path := PyStr ''b.csv'', url := Some ''x''\<rparr>)"
    by simp_all
  have "url (create_url example_request)
          = url (create_url (example_request\<lparr>csv_path := PyStr ''b.csv'', url := Some ''x''\<rparr>)) \<and>
        url (create_url example_request) \<noteq> None"
    by (rule create_url_deterministic) simp_all
  with fields show ?thesis by blast
qed

subsection \<open>The keys of the query\<close>

lemma split_on_no_sep: "c \<notin> set a \<Longrightarrow> split_on c a = [a]"
  by (induction a) auto

lemma split_on_append: "c \<notin> set a \<Longrightarrow> split_on c (a @ c # b) = a # split_on c b"
  by (induction a) auto

lemma wf_float_amp: "wf_float (PyFloat f) \<Longrightarrow> CHR ''&'' \<notin> set (float_repr f)"
  by (auto simp: wf_float_def)

lemma timezone_plain: "z \<in> set timezone_list \<Longrightarrow> z \<noteq> [] \<and> CHR ''&'' \<notin> set z"
  by (auto simp: timezone_list_def)

lemma display_plain: "d \<in> set display_list \<Longrightarrow> d \<noteq> [] \<and> CHR ''&'' \<notin> set d"
  by (auto simp: display_list_def)

lemma model_code:
  "m \<in> set (map fst model_dict) \<Longrightarrow>
   \<exists>c. dict_get model_dict (PyStr m) = PyStr c \<and> c \<noteq> [] \<and> CHR ''&'' \<notin> set c"
  by (auto simp: model_dict_def dict_get_def)

lemma title_code:
  "dict_get title_dict (PyStr m) =
    (if m = ''short_meteocode'' then PyStr ''FPVR14''
     else if m = ''ext_meteocode'' then PyStr ''FPVR54'' else PyNone)"
  by (simp add: title_dict_def dict_get_def)

text \<open>The keys of a URL built from a model code, a title code or none, two floats, no zone, a
  time zone and a display mode, none of which holds an ampersand.\<close>

lemma query_keys_built:
  assumes c: "c \<noteq> []" "CHR ''&'' \<notin> set c"
    and t: "t = PyNone \<or> (\<exists>x. t = PyStr x \<and> x \<noteq> [] \<and> CHR ''&'' \<notin> set x)"
    and a: "CHR ''&'' \<notin> set (float_repr fa)" and b: "CHR ''&'' \<notin> set (float_repr fo)"
    and z: "z \<noteq> []" "CHR ''&'' \<notin> set z"
    and d: "d \<noteq> []" "CHR ''&'' \<notin> set d"
  shows "query_keys
           (add_param ''&display='' (PyStr d)
             (add_param ''&tz='' (PyStr z)
               (add_param ''&zone='' PyNone
                 (add_param ''&lon='' (PyFloat fo)
                   (add_param ''&lat='' (PyFloat fa)
                     (add_param ''&title='' t
                       (add_param ''model='' (PyStr c)
                          ''https://spotwx.com/products/grib_index.php?'')))))))
         = ''model'' # (if truthy t then [''title''] else [])
             @ (if truthy (PyFloat fa) then [''lat''] else [])
             @ (if truthy (PyFloat fo) then [''lon''] else [])
             @ [''tz'', ''display'']"
proof -
  from t consider "t = PyNone" | x where "t = PyStr x" "x \<noteq> []" "CHR ''&'' \<notin> set x"
    by auto
  then show ?thesis
  proof cases
    case 1
    with c a b z d show ?thesis
      by (simp add: add_param_def query_keys_def split_on_append split_on_no_sep)
  next
    case 2
    with c a b z d show ?thesis
      by (simp add: add_param_def query_keys_def split_on_append split_on_no_sep)
  qed
qed

lemma getSpotWx_zone: "zone (fst (snd (getSpotWx e s w))) = zone s"
  by (simp add: getSpotWx_def create_url_def Let_def split: sum.splits prod.splits)

text \<open>
  C10. \<^verbatim>\<open>__init__\<close> sets \<^verbatim>\<open>zone\<close> to \<^verbatim>\<open>None\<close> and no method assigns it: it is \<^verbatim>\<open>None\<close> after
  \<^verbatim>\<open>getSpotWx\<close> too. For every request that passes validation (with floats that print as floats
  do), the URL built has no \<^verbatim>\<open>zone\<close> parameter, and it has a \<^verbatim>\<open>title\<close> parameter exactly when
  the model requested is \<^verbatim>\<open>short_meteocode\<close> or \<^verbatim>\<open>ext_meteocode\<close>.
\<close>

theorem zone_absent_title_iff:
  assumes v: "verify_inputs (init p m la lo tz d) = Inr ()"
    and wa: "wf_float la" and wo: "wf_float lo"
  shows "zone (init p m la lo tz d) = PyNone \<and>
         zone (fst (snd (getSpotWx e (init p m la lo tz d) w))) = PyNone \<and>
         (\<exists>u. url (create_url (init p m la lo tz d)) = Some u \<and>
              ''zone'' \<notin> set (query_keys u) \<and>
              (''title'' \<in> set (query_keys u)
                 \<longleftrightarrow> m = PyStr ''short_meteocode'' \<or> m = PyStr ''ext_meteocode''))"
proof -
  from v have "valid_params (init p m la lo tz d)" by (simp add: verify_inputs_valid)
  then have ok: "model_request_ok m" "is_float la" "is_float lo" "timezone_ok tz" "display_ok d"
    by (simp_all add: valid_params_def init_def)
  from ok(1) obtain ms where m: "m = PyStr ms" "ms \<in> set (map fst model_dict)"
    unfolding model_request_ok_def by blast
  from ok(2) obtain fa where la: "la = PyFloat fa" by (cases la) (simp_all add: is_float_def)
  from ok(3) obtain fo where lo: "lo = PyFloat fo" by (cases lo) (simp_all add: is_float_def)
  from ok(4) obtain z where z: "tz = PyStr z" "z \<in> set timezone_list"
    unfolding timezone_ok_def by blast
  from ok(5) obtain ds where d: "d = PyStr ds" "ds \<in> set display_list"
    unfolding display_ok_def by blast
  from m(2) obtain c where c: "dict_get model_dict (PyStr ms) = PyStr c" "c \<noteq> []"
    "CHR ''&'' \<notin> set c" using model_code by blast
  let ?t = "dict_get title_dict (PyStr ms)"
  let ?u = "add_param ''&display='' (PyStr ds)
             (add_param ''&tz='' (PyStr z)
               (add_param ''&zone='' PyNone
                 (add_param ''&lon='' (PyFloat fo)
                   (add_param ''&lat='' (PyFloat fa)
                     (add_param ''&title='' ?t
                       (add_param ''model='' (PyStr c)
                          ''https://spotwx.com/products/grib_index.php?''))))))"
  let ?ks = "''model'' # (if truthy ?t then [''title''] else [])
             @ (if truthy (PyFloat fa) then [''lat''] else [])
             @ (if truthy (PyFloat fo) then [''lon''] else [])
             @ [''tz'', ''display'']"
  have t: "?t = PyNone \<or> (\<exists>x. ?t = PyStr x \<and> x \<noteq> [] \<and> CHR ''&'' \<notin> set x)"
    by (simp add: title_code)
  have tt: "truthy ?t \<longleftrightarrow> ms = ''short_meteocode'' \<or> ms = ''ext_meteocode''"
    by (simp add: title_code)
  have k: "query_keys ?u = ?ks"
    using c t wa wo z d timezone_plain[OF z(2)] display_plain[OF d(2)]
    by (intro query_keys_built) (auto simp: la lo dest: wf_float_amp)
  have u: "url (create_url (init p m la lo tz d)) = Some ?u"
    by (simp add: create_url_def init_def Let_def m la lo z d c)
  have z0: "zone (init p m la lo tz d) = PyNone" by (simp add: init_def)
  have "''zone'' \<notin> set ?ks" by simp
  moreover have "''title'' \<in> set ?ks \<longleftrightarrow> ms = ''short_meteocode'' \<or> ms = ''ext_meteocode''"
    using tt by simp
  ultimately show ?thesis
    using u k z0 getSpotWx_zone[of e "init p m la lo tz d" w] m(1) by (simp del: truthy.simps)
qed

theorem zone_absent_title_iff_witness:
  "verify_inputs (init (PyStr ''out.csv'') (PyStr ''ext_meteocode'') (PyFloat (Float ''51.0''))
      (PyFloat (Float ''-114.0'')) (PyStr ''America/Edmonton'') (PyStr ''table'')) = Inr () \<and>
   wf_float (PyFloat (Float ''51.0'')) \<and> wf_float (PyFloat (Float ''-114.0'')) \<and>
   (\<exists>u. url (create_url (init (PyStr ''out.csv'') (PyStr ''ext_meteocode'') (PyFloat (Float ''51.0''))
      (PyFloat (Float ''-114.0'')) (PyStr ''America/Edmonton'') (PyStr ''table''))) = Some u \<and>
      ''zone'' \<notin> set (query_keys u) \<and> ''title'' \<in> set (query_keys u))"
proof -
  have v: "verify_inputs (init (PyStr ''out.csv'') (PyStr ''ext_meteocode'') (PyFloat (Float ''51.0''))
      (PyFloat (Float ''-114.0'')) (PyStr ''America/Edmonton'') (PyStr ''table'')) = Inr ()"
    by code_simp
  have a: "wf_float (PyFloat (Float ''51.0''))" by (simp add: wf_float_def)
  have b: "wf_float (PyFloat (Float ''-114.0''))" by (simp add: wf_float_def)
  from zone_absent_title_iff[OF v a b] v a b show ?thesis by auto
qed

section \<open>The command line\<close>

lemma six_list: "length args = 6 \<Longrightarrow> args = [args ! 0, args ! 1, args ! 2, args ! 3, args ! 4, args ! 5]"
  by (auto simp: numeral_eq_Suc length_Suc_conv)

lemma getSpotWx_raises: "verify_inputs s = Inl err \<Longrightarrow> getSpotWx e s w = (Inl err, s, w)"
  by (simp add: getSpotWx_def)

lemma verify_argv:
  "verify_inputs (init (PyStr a) (PyStr b) (PyStr c) (PyStr d) (PyStr t) (PyStr v)) =
     Inl (if \<not> endswith a ''.csv'' then csv_path_value_error
          else if b \<notin> set (map fst model_dict) then model_request_value_error
          else lat_error)"
  by (simp add: verify_inputs_def init_def check_csv_path_def check_model_request_def
        check_lat_def is_str_def is_float_def py_in_def)

lemma main_six:
  "main e [a, b, c, d, t, v] w =
     (Uncaught (if \<not> endswith a ''.csv'' then csv_path_value_error
                else if b \<notin> set (map fst model_dict) then model_request_value_error
                else lat_error), w)"
  by (simp only: main_def list.case getSpotWx_raises[OF verify_argv] prod.case sum.case)

text \<open>
  C3. The command line passes its six arguments to the constructor as they are, strings all of
  them, so the latitude is never a float. Every run with six arguments ends in an uncaught
  \<^verbatim>\<open>ValueError\<close> raised by the validation, with nothing printed, requested or written, and
  \<^verbatim>\<open>getSpotWx\<close> leaves the object as the constructor made it (no URL). Which \<^verbatim>\<open>ValueError\<close> it is
  follows the order of the checks: the one for the path when the first argument does not end in
  \<^verbatim>\<open>.csv\<close>, else the one for the model when the second argument is not a key of the registry,
  else the one for the latitude.
\<close>

theorem main_six_args_raise:
  assumes "length args = 6"
  shows "main e args w =
           (Uncaught (if \<not> endswith (args ! 0) ''.csv'' then csv_path_value_error
                      else if args ! 1 \<notin> set (map fst model_dict) then model_request_value_error
                      else lat_error), w) \<and>
         (\<exists>msg. fst (main e args w) = Uncaught (ValueError msg)) \<and>
         (\<exists>err. getSpotWx e (init (PyStr (args ! 0)) (PyStr (args ! 1)) (PyStr (args ! 2))
                    (PyStr (args ! 3)) (PyStr (args ! 4)) (PyStr (args ! 5))) w =
                  (Inl err, init (PyStr (args ! 0)) (PyStr (args ! 1)) (PyStr (args ! 2))
                    (PyStr (args ! 3)) (PyStr (args ! 4)) (PyStr (args ! 5)), w))"
proof -
  have m: "main e args w =
           (Uncaught (if \<not> endswith (args ! 0) ''.csv'' then csv_path_value_error
                      else if args ! 1 \<notin> set (map fst model_dict) then model_request_value_error
                      else lat_error), w)"
    by (subst six_list[OF assms]) (rule main_six)
  have "\<exists>msg. (if \<not> endswith (args ! 0) ''.csv'' then csv_path_value_error
                      else if args ! 1 \<notin> set (map fst model_dict) then model_request_value_error
                      else lat_error) = ValueError msg"
    by (simp add: csv_path_value_error_def model_request_value_error_def lat_error_def)
  with m show ?thesis
    using getSpotWx_raises[OF verify_argv] by auto
qed

theorem main_six_args_raise_witness:
  "length [''out.csv'', ''gfs'', ''51.0'', ''-114.0'', ''America/Edmonton'', ''table''] = 6 \<and>
   main (example_env 200 []) [''out.csv'', ''gfs'', ''51.0'', ''-114.0'', ''America/Edmonton'', ''table'']
     empty_world = (Uncaught lat_error, empty_world)"
proof -
  have l: "length [''out.csv'', ''gfs'', ''51.0'', ''-114.0'', ''America/Edmonton'', ''table''] = 6"
    by simp
  have a: "endswith ''out.csv'' ''.csv''" by (simp add: endswith_def)
  have b: "''gfs'' \<in> set (map fst model_dict)" by (simp add: model_dict_def)
  from main_six_args_raise[OF l, of "example_env 200 []" empty_world] a b l show ?thesis
    by simp
qed

text \<open>
  C3 as stated fails: with the arguments \<^verbatim>\<open>out.txt gfs 51.0 -114.0 America/Edmonton table\<close> the
  run ends in the \<^verbatim>\<open>ValueError\<close> for the path, not in the one for the latitude.
\<close>

theorem main_csv_path_error_first:
  "fst (main (example_env 200 []) [''out.txt'', ''gfs'', ''51.0'', ''-114.0'', ''America/Edmonton'', ''table'']
     empty_world) = Uncaught csv_path_value_error \<and>
   fst (main (example_env 200 []) [''out.txt'', ''gfs'', ''51.0'', ''-114.0'', ''America/Edmonton'', ''table'']
     empty_world) \<noteq> Uncaught lat_error"
  by (simp add: main_six endswith_def csv_path_value_error_def lat_error_def)

section \<open>Validation\<close>

lemma check_csv_path_ok: "csv_path_ok v \<Longrightarrow> check_csv_path v = None"
  by (cases v) (auto simp: check_csv_path_def csv_path_ok_def)

lemma check_model_request_ok: "model_request_ok v \<Longrightarrow> check_model_request v = None"
  by (cases v) (auto simp: check_model_request_def model_request_ok_def is_str_def py_in_def)

lemma check_timezone_ok: "timezone_ok v \<Longrightarrow> check_timezone v = None"
  by (cases v) (auto simp: check_timezone_def timezone_ok_def is_str_def py_in_def)

lemma check_display_ok: "display_ok v \<Longrightarrow> check_display v = None"
  by (cases v) (auto simp: check_display_def display_ok_def is_str_def py_in_def)

lemma reject_csv_path:
  "\<not> is_str (csv_path s) \<Longrightarrow> verify_inputs s = Inl csv_path_type_error"
  "csv_path s = PyStr p \<Longrightarrow> \<not> endswith p ''.csv'' \<Longrightarrow> verify_inputs s = Inl csv_path_value_error"
  by (cases "csv_path s"; simp add: verify_inputs_def check_csv_path_def is_str_def)+

lemma reject_model_request:
  assumes "csv_path_ok (csv_path s)"
  shows "\<not> is_str (model_request s) \<Longrightarrow> verify_inputs s = Inl model_request_type_error"
    and "model_request s = PyStr m \<Longrightarrow> m \<notin> set (map fst model_dict) \<Longrightarrow>
         verify_inputs s = Inl model_request_value_error"
  using assms
  by (simp_all add: verify_inputs_def check_csv_path_ok check_model_request_def is_str_def py_in_def)

lemma reject_lat_lon:
  assumes "csv_path_ok (csv_path s)" "model_request_ok (model_request s)"
  shows "\<not> is_float (lat s) \<Longrightarrow> verify_inputs s = Inl lat_error"
    and "is_float (lat s) \<Longrightarrow> \<not> is_float (lon s) \<Longrightarrow> verify_inputs s = Inl lon_error"
  using assms
  by (simp_all add: verify_inputs_def check_csv_path_ok check_model_request_ok check_lat_def
        check_lon_def)

lemma reject_timezone:
  assumes "csv_path_ok (csv_path s)" "model_request_ok (model_request s)"
    "is_float (lat s)" "is_float (lon s)"
  shows "\<not> is_str (timezone s) \<Longrightarrow> verify_inputs s = Inl timezone_type_error"
    and "timezone s = PyStr z \<Longrightarrow> z \<notin> set timezone_list \<Longrightarrow>
         verify_inputs s = Inl timezone_value_error"
  using assms
  by (simp_all add: verify_inputs_def check_csv_path_ok check_model_request_ok check_lat_def
        check_lon_def check_timezone_def is_str_def py_in_def)

lemma reject_display:
  assumes "csv_path_ok (csv_path s)" "model_request_ok (model_request s)"
    "is_float (lat s)" "is_float (lon s)" "timezone_ok (timezone s)"
  shows "\<not> is_str (display s) \<Longrightarrow> verify_inputs s = Inl display_type_error"
    and "display s = PyStr d \<Longrightarrow> d \<notin> set display_list \<Longrightarrow>
         verify_inputs s = Inl display_value_error"
  using assms
  by (simp_all add: verify_inputs_def check_csv_path_ok check_model_request_ok check_lat_def
        check_lon_def check_timezone_ok check_display_def is_str_def py_in_def)

lemma verify_inputs_error_set:
  "verify_inputs s = Inl err \<Longrightarrow> err \<in> set validation_errors"
  by (auto simp: verify_inputs_def validation_errors_def check_csv_path_def
        check_model_request_def check_lat_def check_lon_def check_timezone_def check_display_def
        split: if_splits pyval.splits)

lemma validation_errors_distinct: "distinct validation_errors"
  by code_simp

lemma messages_name_parameter:
  \<open>sublist ''"csv_path"'' (error_message csv_path_type_error) \<and>
   sublist ''"csv_path"'' (error_message csv_path_value_error) \<and>
   sublist ''"model_request"'' (error_message model_request_type_error) \<and>
   sublist ''"model_request"'' (error_message model_request_value_error) \<and>
   sublist ''"lat"'' (error_message lat_error) \<and>
   sublist ''"lon"'' (error_message lon_error) \<and>
   sublist ''"timezone"'' (error_message timezone_type_error) \<and>
   sublist ''"timezone"'' (error_message timezone_value_error) \<and>
   sublist ''"display"'' (error_message display_type_error) \<and>
   sublist ''"display"'' (error_message display_value_error)\<close>
  by code_simp

lemma messages_list_values:
  "prints_values (map fst model_dict) (error_message model_request_value_error) \<and>
   prints_values timezone_list (error_message timezone_value_error) \<and>
   prints_values display_list (error_message display_value_error)"
  by code_simp

text \<open>
  C4, as it holds. \<^verbatim>\<open>_verify_inputs\<close> returns normally exactly for the valid parameter sets; it
  is a function of the object alone and changes nothing. Any other set it rejects with one of
  ten exceptions, which are pairwise different, and \<^verbatim>\<open>getSpotWx\<close> then ends with that exception,
  the object and the world untouched, so no request is sent. The checks run in the order path,
  model, latitude, longitude, time zone, display mode, and the first one that fails decides the
  exception: a path that is not a string or does not end in \<^verbatim>\<open>.csv\<close>; with a good path, a
  model that is not a string or not in the registry; with those good, a latitude that is not a
  float, then a longitude that is not a float; then a time zone that is not a string or not in
  the list; then a display mode that is not a string or not in the list. The messages for the
  path, the latitude and the longitude name the parameter, and those for the model, the time
  zone and the display mode print every allowed value between quotes.
\<close>

theorem verify_inputs_rejects:
  \<open>(verify_inputs s = Inr () \<longleftrightarrow> valid_params s) \<and>
   (\<forall>err. verify_inputs s = Inl err \<longrightarrow>
      err \<in> set validation_errors \<and> getSpotWx e s w = (Inl err, s, w)) \<and>
   (\<not> is_str (csv_path s) \<longrightarrow> verify_inputs s = Inl csv_path_type_error) \<and>
   (\<forall>p. csv_path s = PyStr p \<and> \<not> endswith p ''.csv'' \<longrightarrow>
      verify_inputs s = Inl csv_path_value_error) \<and>
   (csv_path_ok (csv_path s) \<longrightarrow>
      (\<not> is_str (model_request s) \<longrightarrow> verify_inputs s = Inl model_request_type_error) \<and>
      (\<forall>m. model_request s = PyStr m \<and> m \<notin> set (map fst model_dict) \<longrightarrow>
         verify_inputs s = Inl model_request_value_error)) \<and>
   (csv_path_ok (csv_path s) \<and> model_request_ok (model_request s) \<longrightarrow>
      (\<not> is_float (lat s) \<longrightarrow> verify_inputs s = Inl lat_error) \<and>
      (is_float (lat s) \<and> \<not> is_float (lon s) \<longrightarrow> verify_inputs s = Inl lon_error)) \<and>
   (csv_path_ok (csv_path s) \<and> model_request_ok (model_request s) \<and>
    is_float (lat s) \<and> is_float (lon s) \<longrightarrow>
      (\<not> is_str (timezone s) \<longrightarrow> verify_inputs s = Inl timezone_type_error) \<and>
      (\<forall>z. timezone s = PyStr z \<and> z \<notin> set timezone_list \<longrightarrow>
         verify_inputs s = Inl timezone_value_error)) \<and>
   (csv_path_ok (csv_path s) \<and> model_request_ok (model_request s) \<and>
    is_float (lat s) \<and> is_float (lon s) \<and> timezone_ok (timezone s) \<longrightarrow>
      (\<not> is_str (display s) \<longrightarrow> verify_inputs s = Inl display_type_error) \<and>
      (\<forall>d. display s = PyStr d \<and> d \<notin> set display_list \<longrightarrow>
         verify_inputs s = Inl display_value_error)) \<and>
   distinct validation_errors \<and>
   sublist ''"csv_path"'' (error_message csv_path_value_error) \<and>
   sublist ''"lat"'' (error_message lat_error) \<and>
   sublist ''"lon"'' (error_message lon_error) \<and>
   prints_values (map fst model_dict) (error_message model_request_value_error) \<and>
   prints_values timezone_list (error_message timezone_value_error) \<and>
   prints_values display_list (error_message display_value_error)\<close>
proof (intro conjI)
  show "verify_inputs s = Inr () \<longleftrightarrow> valid_params s" by (rule verify_inputs_valid)
  show "\<forall>err. verify_inputs s = Inl err \<longrightarrow>
      err \<in> set validation_errors \<and> getSpotWx e s w = (Inl err, s, w)"
    using verify_inputs_error_set getSpotWx_raises by blast
  show "\<not> is_str (csv_path s) \<longrightarrow> verify_inputs s = Inl csv_path_type_error"
    using reject_csv_path(1) by blast
  show "\<forall>p. csv_path s = PyStr p \<and> \<not> endswith p ''.csv'' \<longrightarrow>
      verify_inputs s = Inl csv_path_value_error"
    using reject_csv_path(2) by blast
  show "csv_path_ok (csv_path s) \<longrightarrow>
      (\<not> is_str (model_request s) \<longrightarrow> verify_inputs s = Inl model_request_type_error) \<and>
      (\<forall>m. model_request s = PyStr m \<and> m \<notin> set (map fst model_dict) \<longrightarrow>
         verify_inputs s = Inl model_request_value_error)"
    using reject_model_request[of s] by blast
  show "csv_path_ok (csv_path s) \<and> model_request_ok (model_request s) \<longrightarrow>
      (\<not> is_float (lat s) \<longrightarrow> verify_inputs s = Inl lat_error) \<and>
      (is_float (lat s) \<and> \<not> is_float (lon s) \<longrightarrow> verify_inputs s = Inl lon_error)"
    using reject_lat_lon[of s] by blast
  show "csv_path_ok (csv_path s) \<and> model_request_ok (model_request s) \<and>
    is_float (lat s) \<and> is_float (lon s) \<longrightarrow>
      (\<not> is_str (timezone s) \<longrightarrow> verify_inputs s = Inl timezone_type_error) \<and>
      (\<forall>z. timezone s = PyStr z \<and> z \<notin> set timezone_list \<longrightarrow>
         verify_inputs s = Inl timezone_value_error)"
    using reject_timezone[of s] by blast
  show "csv_path_ok (csv_path s) \<and> model_request_ok (model_request s) \<and>
    is_float (lat s) \<and> is_float (lon s) \<and> timezone_ok (timezone s) \<longrightarrow>
      (\<not> is_str (display s) \<longrightarrow> verify_inputs s = Inl display_type_error) \<and>
      (\<forall>d. display s = PyStr d \<and> d \<notin> set display_list \<longrightarrow>
         verify_inputs s = Inl display_value_error)"
    using reject_display[of s] by blast
  show "distinct validation_errors" by (rule validation_errors_distinct)
  show \<open>sublist ''"csv_path"'' (error_message csv_path_value_error)\<close>
    using messages_name_parameter by blast
  show \<open>sublist ''"lat"'' (error_message lat_error)\<close>
    using messages_name_parameter by blast
  show \<open>sublist ''"lon"'' (error_message lon_error)\<close>
    using messages_name_parameter by blast
  show "prints_values (map fst model_dict) (error_message model_request_value_error)"
    using messages_list_values by blast
  show "prints_values timezone_list (error_message timezone_value_error)"
    using messages_list_values by blast
  show "prints_values display_list (error_message display_value_error)"
    using messages_list_values by blast
qed

theorem verify_inputs_rejects_witness:
  \<open>valid_params example_request \<and> verify_inputs example_request = Inr () \<and>
   timezone (example_request\<lparr>timezone := PyStr ''Europe/Paris''\<rparr>) = PyStr ''Europe/Paris'' \<and>
   ''Europe/Paris'' \<notin> set timezone_list \<and>
   verify_inputs (example_request\<lparr>timezone := PyStr ''Europe/Paris''\<rparr>) = Inl timezone_value_error\<close>
proof -
  let ?s = "example_request\<lparr>timezone := PyStr ''Europe/Paris''\<rparr>"
  have v: "valid_params example_request"
    by (simp add: valid_params_def example_request_def init_def csv_path_ok_def endswith_def
          model_request_ok_def model_dict_def is_float_def timezone_ok_def timezone_list_def
          display_ok_def display_list_def)
  have pre: "csv_path_ok (csv_path ?s) \<and> model_request_ok (model_request ?s) \<and>
             is_float (lat ?s) \<and> is_float (lon ?s)"
    using v by (simp add: valid_params_def)
  have tz: "timezone ?s = PyStr ''Europe/Paris'' \<and> ''Europe/Paris'' \<notin> set timezone_list"
    by (simp add: timezone_list_def)
  from verify_inputs_rejects[of example_request] v
  have a: "verify_inputs example_request = Inr ()" by blast
  from verify_inputs_rejects[of ?s] pre tz
  have b: "verify_inputs ?s = Inl timezone_value_error" by blast
  from v a b tz show ?thesis by simp
qed

text \<open>
  C4 as stated fails where an earlier check fails too: with the path \<^verbatim>\<open>out.txt\<close> and the time
  zone \<^verbatim>\<open>Europe/Paris\<close>, which is not in the list, the exception is the one for the path, and
  with the longitude \<^verbatim>\<open>True\<close> and that time zone it is the one for the longitude; neither is
  the exception for the time zone and neither message prints a time zone of the list.
\<close>

theorem earlier_check_hides_timezone:
  "''Europe/Paris'' \<notin> set timezone_list \<and>
   verify_inputs (example_request\<lparr>csv_path := PyStr ''out.txt'', timezone := PyStr ''Europe/Paris''\<rparr>)
     = Inl csv_path_value_error \<and>
   verify_inputs (example_request\<lparr>lon := PyBool True, timezone := PyStr ''Europe/Paris''\<rparr>)
     = Inl lon_error \<and>
   csv_path_value_error \<noteq> timezone_value_error \<and>
   lon_error \<noteq> timezone_value_error \<and>
   \<not> prints_values timezone_list (error_message csv_path_value_error) \<and>
   \<not> sublist ''America'' (error_message csv_path_value_error) \<and>
   \<not> prints_values timezone_list (error_message lon_error) \<and>
   \<not> sublist ''America'' (error_message lon_error)"
  by code_simp

section \<open>Retrieval\<close>

lemma find_script_None:
  "\<forall>t. Some t \<in> set scripts \<longrightarrow> \<not> has_aDataSet t \<Longrightarrow> find_script scripts = None"
proof -
  assume h: "\<forall>t. Some t \<in> set scripts \<longrightarrow> \<not> has_aDataSet t"
  have "List.find (\<lambda>s. case s of Some t \<Rightarrow> has_aDataSet t | None \<Rightarrow> False) scripts = None"
    using h by (auto simp: find_None_iff split: option.splits)
  then show ?thesis by (simp add: find_script_def)
qed

text \<open>
  C5. When the server answers with a status other than 200 (every status that is not a
  success is one), \<^verbatim>\<open>_get_csv\<close> prints the failure with the status code and returns: it has sent
  one request, it has looked for no data and the files are as they were.
\<close>

theorem transport_failure:
  assumes "url s = Some u" and "http_get e u = Inr r" and "status_code r \<noteq> 200"
  shows "get_csv e s w =
           (Inr (), print (''Failed to retrieve data. Status code: '' @ str_int (status_code r))
                      (w\<lparr>requests := requests w @ [u]\<rparr>)) \<and>
         files (snd (get_csv e s w)) = files w \<and>
         requests (snd (get_csv e s w)) = requests w @ [u]"
  using assms by (simp add: get_csv_def print_def)

theorem transport_failure_witness:
  "url (create_url example_request) = Some ''https://spotwx.com/products/grib_index.php?model=gfs_pgrb2&lat=51.0&lon=-114.0&tz=America/Edmonton&display=table'' \<and>
   status_code \<lparr>status_code = 404, response_text = []\<rparr> \<noteq> 200 \<and>
   fst (get_csv (example_env 404 []) (create_url example_request) empty_world) = Inr () \<and>
   stdout (snd (get_csv (example_env 404 []) (create_url example_request) empty_world))
     = [''Failed to retrieve data. Status code: 404''] \<and>
   files (snd (get_csv (example_env 404 []) (create_url example_request) empty_world)) = Map.empty \<and>
   requests (snd (get_csv (example_env 404 []) (create_url example_request) empty_world))
     = [''https://spotwx.com/products/grib_index.php?model=gfs_pgrb2&lat=51.0&lon=-114.0&tz=America/Edmonton&display=table'']"
proof -
  let ?u = "''https://spotwx.com/products/grib_index.php?model=gfs_pgrb2&lat=51.0&lon=-114.0&tz=America/Edmonton&display=table''"
  let ?r = "\<lparr>status_code = 404, response_text = []\<rparr>"
  have u: "url (create_url example_request) = Some ?u" by code_simp
  have g: "http_get (example_env 404 []) ?u = Inr ?r" by (simp add: example_env_def)
  have c: "status_code ?r \<noteq> 200" by simp
  have d: "str_int 404 = ''404''" by code_simp
  from transport_failure[OF u g c, of empty_world] u c d show ?thesis
    by (simp add: print_def empty_world_def)
qed

text \<open>
  The branch that reports missing data. When the server answers with status 200 and no script
  element of the page holds the text \<^verbatim>\<open>var aDataSet =\<close>, \<^verbatim>\<open>_get_csv\<close> prints that the variable was
  not found, a message that differs from the one for a failed request whatever the status code,
  and returns without raising; the files are as they were.
\<close>

lemma extraction_miss:
  assumes "url s = Some u" and "http_get e u = Inr r" and "status_code r = 200"
    and "\<forall>t. Some t \<in> set (script_strings e (response_text r)) \<longrightarrow> \<not> has_aDataSet t"
  shows \<open>get_csv e s w =
           (Inr (), print ''JavaScript variable "aDataSet" not found in the HTML content.''
                      (w\<lparr>requests := requests w @ [u]\<rparr>)) \<and>
         files (snd (get_csv e s w)) = files w \<and>
         (\<forall>n. ''JavaScript variable "aDataSet" not found in the HTML content.''
                \<noteq> ''Failed to retrieve data. Status code: '' @ str_int n)\<close>
  using assms by (simp add: get_csv_def print_def find_script_None)

lemma extraction_miss_example:
  \<open>url (create_url example_request) = Some ''https://spotwx.com/products/grib_index.php?model=gfs_pgrb2&lat=51.0&lon=-114.0&tz=America/Edmonton&display=table'' \<and>
   \<not> has_aDataSet ''var x = 1;'' \<and>
   fst (get_csv (example_env 200 ''var x = 1;'') (create_url example_request) empty_world) = Inr () \<and>
   stdout (snd (get_csv (example_env 200 ''var x = 1;'') (create_url example_request) empty_world))
     = [''JavaScript variable "aDataSet" not found in the HTML content.''] \<and>
   files (snd (get_csv (example_env 200 ''var x = 1;'') (create_url example_request) empty_world)) = Map.empty\<close>
proof -
  let ?u = "''https://spotwx.com/products/grib_index.php?model=gfs_pgrb2&lat=51.0&lon=-114.0&tz=America/Edmonton&display=table''"
  let ?r = "\<lparr>status_code = 200, response_text = ''var x = 1;''\<rparr>"
  have u: "url (create_url example_request) = Some ?u" by code_simp
  have g: "http_get (example_env 200 ''var x = 1;'') ?u = Inr ?r" by (simp add: example_env_def)
  have c: "status_code ?r = 200" by simp
  have n: "\<not> has_aDataSet ''var x = 1;''" by code_simp
  have m: "\<forall>t. Some t \<in> set (script_strings (example_env 200 ''var x = 1;'') (response_text ?r))
             \<longrightarrow> \<not> has_aDataSet t"
    using n by (simp add: example_env_def)
  from extraction_miss[OF u g c m, of empty_world] u n show ?thesis
    by (simp add: print_def empty_world_def)
qed

text \<open>
  C6 fails on the code. The search for the script element tests for the text
  \<^verbatim>\<open>var aDataSet =\<close> alone, the search inside the script for that text followed by a blank, a
  bracketed literal and a semicolon, and the result of the second search is used unchecked. A
  page with status 200 whose only script is the comment \<^verbatim>\<open>// var aDataSet = off\<close> assigns
  nothing to the variable; the first search finds the script, the second finds nothing, and
  \<^verbatim>\<open>_get_csv\<close> ends with the \<^verbatim>\<open>AttributeError\<close> of \<^verbatim>\<open>None.group\<close>: it has printed nothing and written
  no file.
\<close>

theorem mention_without_literal_raises:
  \<open>has_aDataSet ''// var aDataSet = off'' \<and>
   search_aDataSet ''// var aDataSet = off'' = None \<and>
   fst (get_csv (example_env 200 ''// var aDataSet = off'') (create_url example_request) empty_world)
     = Inl (AttributeError ([CHR 0x27] @ ''NoneType'' @ [CHR 0x27] @ '' object has no attribute ''
                            @ [CHR 0x27] @ ''group'' @ [CHR 0x27])) \<and>
   stdout (snd (get_csv (example_env 200 ''// var aDataSet = off'') (create_url example_request)
                  empty_world)) = [] \<and>
   files (snd (get_csv (example_env 200 ''// var aDataSet = off'') (create_url example_request)
                 empty_world)) ''out.csv'' = None\<close>
  by code_simp

section \<open>The file written and read back\<close>

lemma split_on_join:
  "fs \<noteq> [] \<Longrightarrow> \<forall>f \<in> set fs. c \<notin> set f \<Longrightarrow> split_on c (join [c] fs) = fs"
proof (induction "[c]" fs rule: join.induct)
  case 1
  then show ?case by simp
next
  case (2 x)
  then show ?case by (simp add: split_on_no_sep)
next
  case (3 x y ys)
  then show ?case by (simp add: split_on_append)
qed

lemma csv_field_plain: "csv_plain f \<Longrightarrow> csv_field f = f"
  by (auto simp: csv_plain_def csv_field_def needs_quotes_def)

lemma set_join: "set (join sep xs) \<subseteq> set sep \<union> \<Union> (set ` set xs)"
  by (induction sep xs rule: join.induct) auto

lemma split_lines_concat:
  "\<forall>l \<in> set ls. CHR 0x0A \<notin> set l \<Longrightarrow>
   split_on (CHR 0x0A) (concat (map (\<lambda>l. l @ [CHR 0x0A]) ls)) = ls @ [[]]"
  by (induction ls) (simp_all add: split_on_append)

lemma file_lines_concat:
  "\<forall>l \<in> set ls. CHR 0x0A \<notin> set l \<Longrightarrow>
   file_lines (concat (map (\<lambda>l. l @ [CHR 0x0A]) ls)) = ls"
  by (simp add: file_lines_def split_lines_concat)

lemma to_csv_lines:
  "to_csv columns table =
     concat (map (\<lambda>l. l @ [CHR 0x0A]) (map (\<lambda>r. join '','' (map csv_field r)) (columns # table)))"
  by (simp add: to_csv_def csv_line_def[abs_def] comp_def)

lemma csv_field_no_lf: "CHR 0x0A \<notin> set f \<Longrightarrow> CHR 0x0A \<notin> set (csv_field f)"
  by (auto simp: csv_field_def split: if_splits)

lemma join_no_lf:
  assumes "\<forall>f \<in> set r. CHR 0x0A \<notin> set f"
  shows "CHR 0x0A \<notin> set (join '','' (map csv_field r))"
proof -
  have "set (join '','' (map csv_field r)) \<subseteq> set '','' \<union> \<Union> (set ` set (map csv_field r))"
    by (rule set_join)
  moreover have "\<forall>f \<in> set r. CHR 0x0A \<notin> set (csv_field f)"
    using assms by (auto dest: csv_field_no_lf)
  ultimately show ?thesis by auto
qed

lemma headers_no_lf: "\<forall>f \<in> set headers. CHR 0x0A \<notin> set f"
  by (simp add: headers_def)

lemma file_lines_to_csv:
  assumes "\<forall>r \<in> set rows. \<forall>f \<in> set r. CHR 0x0A \<notin> set f"
  shows "file_lines (to_csv headers rows)
           = map (\<lambda>r. join '','' (map csv_field r)) (headers # rows)"
proof -
  have "\<forall>l \<in> set (map (\<lambda>r. join '','' (map csv_field r)) (headers # rows)). CHR 0x0A \<notin> set l"
    using assms headers_no_lf join_no_lf by auto
  then show ?thesis unfolding to_csv_lines by (rule file_lines_concat)
qed

lemma header_line: "join '','' (map csv_field headers) = ''HOURLY,HOUR,TEMP,RH,WD,WS,PRECIP''"
  by code_simp

lemma read_back_plain:
  assumes "\<forall>r \<in> set rows. r \<noteq> [] \<and> (\<forall>f \<in> set r. csv_plain f)"
  shows "read_back (to_csv headers rows) = rows"
proof -
  have "\<forall>r \<in> set rows. \<forall>f \<in> set r. CHR 0x0A \<notin> set f"
    using assms by (auto simp: csv_plain_def)
  then have "read_back (to_csv headers rows)
               = map (\<lambda>r. split_on (CHR '','') (join '','' (map csv_field r))) rows"
    by (simp add: read_back_def file_lines_to_csv comp_def)
  also have "\<dots> = map (\<lambda>r. r) rows"
  proof (rule map_cong[OF refl])
    fix r assume r: "r \<in> set rows"
    with assms have ne: "r \<noteq> []" and p: "\<forall>f \<in> set r. csv_plain f" by auto
    from p have m: "map csv_field r = r" by (simp add: csv_field_plain map_idI)
    from p have "\<forall>f \<in> set r. CHR '','' \<notin> set f" by (simp add: csv_plain_def)
    with ne show "split_on (CHR '','') (join '','' (map csv_field r)) = r"
      unfolding m by (rule split_on_join)
  qed
  finally show ?thesis by simp
qed

text \<open>
  C9, as it holds. For rows of seven fields that hold no comma, no double quote and no line
  break (line feed or carriage return), the file that \<^verbatim>\<open>to_csv\<close> writes, read back line by line
  and split at the commas after the header line, gives the rows again, in their order.
\<close>

theorem csv_round_trip:
  assumes "\<forall>r \<in> set rows. length r = 7 \<and> (\<forall>f \<in> set r. csv_plain f)"
  shows "read_back (to_csv headers rows) = rows"
proof -
  from assms have "\<forall>r \<in> set rows. r \<noteq> [] \<and> (\<forall>f \<in> set r. csv_plain f)" by auto
  then show ?thesis by (rule read_back_plain)
qed

theorem csv_round_trip_witness:
  "list_all (\<lambda>r. length r = 7 \<and> list_all csv_plain r)
     [[''2024-08-06'', ''12:00'', ''15.2'', ''60'', ''270'', ''10'', ''0.0'']] \<and>
   read_back (to_csv headers [[''2024-08-06'', ''12:00'', ''15.2'', ''60'', ''270'', ''10'', ''0.0'']])
     = [[''2024-08-06'', ''12:00'', ''15.2'', ''60'', ''270'', ''10'', ''0.0'']]"
proof -
  have h: "\<forall>r \<in> set [[''2024-08-06'', ''12:00'', ''15.2'', ''60'', ''270'', ''10'', ''0.0'']].
      length r = 7 \<and> (\<forall>f \<in> set r. csv_plain f)"
    by (simp add: csv_plain_def)
  from csv_round_trip[OF h] h show ?thesis by (simp add: list_all_iff)
qed

text \<open>
  C9 as stated fails: a field may hold a line feed without holding a comma or a quote. The
  writer puts such a field in quotes and the line feed inside it, so the file has one line more
  than rows and the lines split at the commas are not the row.
\<close>

theorem line_feed_breaks_round_trip:
  "read_back (to_csv headers [[[CHR ''a'', CHR 0x0A, CHR ''b''], ''1'', ''2'', ''3'', ''4'', ''5'', ''6'']])
     \<noteq> [[[CHR ''a'', CHR 0x0A, CHR ''b''], ''1'', ''2'', ''3'', ''4'', ''5'', ''6'']] \<and>
   list_all comma_free [[CHR ''a'', CHR 0x0A, CHR ''b''], ''1'', ''2'', ''3'', ''4'', ''5'', ''6''] \<and>
   list_all quote_free [[CHR ''a'', CHR 0x0A, CHR ''b''], ''1'', ''2'', ''3'', ''4'', ''5'', ''6'']"
  by code_simp

section \<open>Extraction\<close>

subsection \<open>The search for the literal\<close>

lemma split_at_first_found:
  assumes "pat \<noteq> []" and "hd pat \<notin> set (tl pat)" and "\<not> sublist pat pre"
  shows "split_at_first pat (pre @ pat @ rest) = Some (pre, rest)"
  using assms(3)
proof (induction pre)
  case Nil
  from assms(1) obtain c cs where "pat = c # cs" by (cases pat) auto
  then show ?case by simp
next
  case (Cons x pre)
  have np: "\<not> prefix pat ((x # pre) @ pat @ rest)"
  proof
    assume "prefix pat ((x # pre) @ pat @ rest)"
    then have "prefix pat (x # pre) \<or> (\<exists>q. pat = (x # pre) @ q \<and> prefix q (pat @ rest))"
      by (simp only: prefix_append)
    then consider "prefix pat (x # pre)" | q where "pat = (x # pre) @ q" "prefix q (pat @ rest)"
      by blast
    then show False
    proof cases
      case 1
      then have "sublist pat (x # pre)" by (rule prefix_imp_sublist)
      with Cons.prems show False by simp
    next
      case 2
      show False
      proof (cases q)
        case Nil
        with 2 have "sublist pat (x # pre)" by simp
        with Cons.prems show False by simp
      next
        case (Cons y q')
        with 2(2) assms(1) have "y = hd pat" by (cases pat) auto
        moreover from 2(1) Cons have "y \<in> set (tl pat)" by simp
        ultimately show False using assms(2) by simp
      qed
    qed
  qed
  from Cons.prems have "\<not> sublist pat pre" by (auto simp: sublist_Cons_right)
  with Cons.IH have "split_at_first pat (pre @ pat @ rest) = Some (pre, rest)" by simp
  with np show ?case by simp
qed

lemma sublist_close_append:
  "sublist ''];'' (xs @ ys) \<Longrightarrow>
   sublist ''];'' xs \<or> sublist ''];'' ys \<or> (ys \<noteq> [] \<and> hd ys = CHR '';'')"
  by (cases ys)
     (auto simp: sublist_append append_eq_Cons_conv Cons_eq_append_conv
           dest: prefix_imp_sublist suffix_imp_sublist)

lemma no_close_append: "no_close xs \<Longrightarrow> no_close ys \<Longrightarrow> no_close (xs @ ys)"
  using sublist_close_append[of xs ys] by (auto simp: no_close_def hd_append)

lemma no_close_Nil: "no_close []"
  by (simp add: no_close_def)

lemma no_close_single: "c \<noteq> CHR '';'' \<Longrightarrow> no_close [c]"
  by (auto simp: no_close_def sublist_Cons_right)

lemma no_close_join:
  "no_close sep \<Longrightarrow> \<forall>x \<in> set xs. no_close x \<Longrightarrow> no_close (join sep xs)"
  by (induction sep xs rule: join.induct) (auto simp: no_close_Nil intro: no_close_append)

lemma no_close_js_string: "\<not> sublist ''];'' f \<Longrightarrow> no_close (js_string f)"
proof -
  assume f: "\<not> sublist ''];'' f"
  have a: "no_close [CHR 0x27]" by (rule no_close_single) simp
  have "\<not> sublist ''];'' (f @ [CHR 0x27])"
    using sublist_close_append[of f "[CHR 0x27]"] f by (auto simp: sublist_Cons_right)
  then have "\<not> sublist ''];'' ([CHR 0x27] @ (f @ [CHR 0x27]))"
    using sublist_close_append[of "[CHR 0x27]" "f @ [CHR 0x27]"]
    by (cases f) (auto simp: sublist_Cons_right)
  then show ?thesis by (simp add: no_close_def js_string_def)
qed

lemma no_close_js_row: "\<forall>f \<in> set r. \<not> sublist ''];'' f \<Longrightarrow> no_close (js_row r)"
  unfolding js_row_def
  by (intro no_close_append no_close_join no_close_single) (auto intro: no_close_js_string)

lemma no_close_rows:
  "\<forall>r \<in> set rows. \<forall>f \<in> set r. \<not> sublist ''];'' f \<Longrightarrow> no_close (join '','' (map js_row rows))"
  by (intro no_close_join no_close_single) (auto intro: no_close_js_row)

lemma search_aDataSet_literal:
  assumes pre: "\<not> sublist ''var aDataSet = ['' pre"
    and rows: "\<forall>r \<in> set rows. \<forall>f \<in> set r. \<not> sublist ''];'' f"
  shows "search_aDataSet (pre @ ''var aDataSet = '' @ js_array rows @ '';'' @ post)
           = Some (js_array rows)"
proof -
  let ?body = "join '','' (map js_row rows)"
  have t: "pre @ ''var aDataSet = '' @ js_array rows @ '';'' @ post
             = pre @ ''var aDataSet = ['' @ (?body @ ''];'' @ post)"
    by (simp add: js_array_def)
  have 1: "split_at_first ''var aDataSet = ['' (pre @ ''var aDataSet = ['' @ (?body @ ''];'' @ post))
             = Some (pre, ?body @ ''];'' @ post)"
    by (rule split_at_first_found[OF _ _ pre]) simp_all
  have "\<not> sublist ''];'' ?body" using no_close_rows[OF rows] by (simp add: no_close_def)
  then have 2: "split_at_first ''];'' (?body @ ''];'' @ post) = Some (?body, post)"
    by (intro split_at_first_found) simp_all
  show ?thesis
    unfolding t search_aDataSet_def by (simp only: 1 2 option.case prod.case js_array_def)
qed

lemma has_aDataSet_literal:
  "has_aDataSet (pre @ ''var aDataSet = '' @ js_array rows @ '';'' @ post)"
proof -
  have "pre @ ''var aDataSet = '' @ js_array rows @ '';'' @ post
          = pre @ ''var aDataSet ='' @ ('' '' @ js_array rows @ '';'' @ post)" by simp
  then show ?thesis unfolding has_aDataSet_def by (metis sublist_appendI)
qed

subsection \<open>Decoding the literal\<close>

lemma js_plain_str_plain: "js_plain f \<Longrightarrow> str_plain f"
  by (simp add: js_plain_def str_plain_def)

lemma scan_string_plain:
  "str_plain f \<Longrightarrow> scan_string (f @ CHR 0x22 # rest) = Inr (f, rest)"
  by (induction f) (auto simp: str_plain_def)

lemma skip_ws_not_ws: "\<not> is_ws c \<Longrightarrow> skip_ws (c # cs) = c # cs"
  by (simp add: skip_ws_def)

lemma parse_value_string:
  "str_plain f \<Longrightarrow> parse_value (Suc n) (CHR 0x22 # f @ CHR 0x22 # rest) = Inr (JString f, rest)"
  by (simp add: scan_string_plain)

lemma parse_fields:
  assumes "fs \<noteq> []" and "\<forall>f \<in> set fs. str_plain f" and "length fs < n"
  shows "parse_elements n (join '','' (map (\<lambda>f. CHR 0x22 # f @ [CHR 0x22]) fs) @ CHR '']'' # rest)
           = Inr (map JString fs, rest)"
  using assms
proof (induction fs arbitrary: n rule: induct_list012)
  case 1
  then show ?case by simp
next
  case (2 f)
  then obtain m where n: "n = Suc (Suc m)" by (cases n; cases "n - 1") auto
  from 2 have p: "str_plain f" by simp
  show ?case unfolding n
    by (simp add: parse_value_string[OF p] skip_ws_not_ws is_ws_def del: parse_value.simps)
next
  case (3 f g fs)
  then obtain m where n: "n = Suc (Suc m)" by (cases n; cases "n - 1") auto
  from 3 have p: "str_plain f" by simp
  from 3(3-) n have ih: "parse_elements (Suc m)
           (join '','' (map (\<lambda>f. CHR 0x22 # f @ [CHR 0x22]) (g # fs)) @ CHR '']'' # rest)
           = Inr (map JString (g # fs), rest)"
    by (intro 3(2)) auto
  have e: "join '','' (map (\<lambda>f. CHR 0x22 # f @ [CHR 0x22]) (f # g # fs)) @ CHR '']'' # rest
         = CHR 0x22 # f @ CHR 0x22 # CHR '','' # (join '','' (map (\<lambda>f. CHR 0x22 # f @ [CHR 0x22]) (g # fs)) @ CHR '']'' # rest)"
    by simp
  have s: "skip_ws (join '','' (map (\<lambda>f. CHR 0x22 # f @ [CHR 0x22]) (g # fs)) @ CHR '']'' # rest)
         = join '','' (map (\<lambda>f. CHR 0x22 # f @ [CHR 0x22]) (g # fs)) @ CHR '']'' # rest"
    by (cases fs) (simp_all add: skip_ws_not_ws is_ws_def)
  show ?case unfolding n e
    apply (subst parse_elements.simps(2))
    apply (simp add: parse_value_string[OF p] skip_ws_not_ws is_ws_def s ih
             del: parse_value.simps parse_elements.simps join.simps list.map)
    apply simp
    done
qed


lemma join_Cons_hd:
  "\<exists>t. join '','' (map (\<lambda>f. CHR 0x22 # f @ [CHR 0x22]) (f # fs)) = CHR 0x22 # t"
  by (cases fs) auto

lemma parse_row:
  assumes "r \<noteq> []" and "\<forall>f \<in> set r. str_plain f" and "Suc (length r) < n"
  shows "parse_value n (CHR ''['' # join '','' (map (\<lambda>f. CHR 0x22 # f @ [CHR 0x22]) r) @ CHR '']'' # rest)
           = Inr (JArray (map JString r), rest)"
proof -
  from assms(3) obtain m where n: "n = Suc m" and m: "length r < m" by (cases n) auto
  from assms(1) obtain f fs where r: "r = f # fs" by (cases r) auto
  obtain t where t: "join '','' (map (\<lambda>f. CHR 0x22 # f @ [CHR 0x22]) r) = CHR 0x22 # t"
    unfolding r using join_Cons_hd by blast
  have pe: "parse_elements m (CHR 0x22 # t @ CHR '']'' # rest) = Inr (map JString r, rest)"
    using parse_fields[OF assms(1,2) m, of rest] unfolding t by simp
  show ?thesis unfolding n t
    by (simp add: skip_ws_not_ws is_ws_def pe del: parse_elements.simps)
qed

lemma parse_rows:
  assumes "rows \<noteq> []"
    and "\<forall>r \<in> set rows. r \<noteq> [] \<and> length r \<le> k \<and> (\<forall>f \<in> set r. str_plain f)"
    and "length rows + k + 1 < n"
  shows "parse_elements n
           (join '','' (map (\<lambda>r. CHR ''['' # join '','' (map (\<lambda>f. CHR 0x22 # f @ [CHR 0x22]) r) @ '']'') rows)
              @ CHR '']'' # rest)
           = Inr (map (\<lambda>r. JArray (map JString r)) rows, rest)"
  using assms
proof (induction rows arbitrary: n rule: induct_list012)
  case 1
  then show ?case by simp
next
  case (2 r)
  then obtain m where n: "n = Suc m" and m: "Suc (length r) < m" by (cases n) auto
  from 2 have r: "r \<noteq> []" "\<forall>f \<in> set r. str_plain f" by auto
  have pv: "parse_value m (CHR ''['' # join '','' (map (\<lambda>f. CHR 0x22 # f @ [CHR 0x22]) r)
              @ CHR '']'' # CHR '']'' # rest) = Inr (JArray (map JString r), CHR '']'' # rest)"
    by (rule parse_row[OF r m])
  show ?case unfolding n
    by (simp add: pv skip_ws_not_ws is_ws_def del: parse_value.simps)
next
  case (3 r r2 rs)
  let ?row = "\<lambda>r. CHR ''['' # join '','' (map (\<lambda>f. CHR 0x22 # f @ [CHR 0x22]) r) @ '']''"
  from 3(5) obtain m where n: "n = Suc m" and m: "Suc (length r) < m"
    and m2: "length (r2 # rs) + k + 1 < m"
    using 3(4) by (cases n) auto
  from 3(4) have r: "r \<noteq> []" "\<forall>f \<in> set r. str_plain f" by auto
  have ih: "parse_elements m (join '','' (map ?row (r2 # rs)) @ CHR '']'' # rest)
              = Inr (map (\<lambda>r. JArray (map JString r)) (r2 # rs), rest)"
    using 3(4) m2 by (intro 3(2)) auto
  have e: "join '','' (map ?row (r # r2 # rs)) @ CHR '']'' # rest
             = CHR ''['' # join '','' (map (\<lambda>f. CHR 0x22 # f @ [CHR 0x22]) r)
                 @ CHR '']'' # CHR '','' # (join '','' (map ?row (r2 # rs)) @ CHR '']'' # rest)"
    by simp
  have pv: "parse_value m (CHR ''['' # join '','' (map (\<lambda>f. CHR 0x22 # f @ [CHR 0x22]) r)
              @ CHR '']'' # CHR '','' # (join '','' (map ?row (r2 # rs)) @ CHR '']'' # rest))
            = Inr (JArray (map JString r), CHR '','' # (join '','' (map ?row (r2 # rs)) @ CHR '']'' # rest))"
    by (rule parse_row[OF r m])
  have s: "skip_ws (join '','' (map ?row (r2 # rs)) @ CHR '']'' # rest)
             = join '','' (map ?row (r2 # rs)) @ CHR '']'' # rest"
    by (cases rs) (simp_all add: skip_ws_not_ws is_ws_def)
  show ?case unfolding n e
    apply (subst parse_elements.simps(2))
    apply (simp add: pv skip_ws_not_ws is_ws_def s ih
             del: parse_value.simps parse_elements.simps join.simps list.map)
    apply simp
    done
qed

lemma map_join: "map g (join sep xs) = join (map g sep) (map (map g) xs)"
  by (induction sep xs rule: join.induct) auto

lemma replace_quotes_plain: "CHR 0x27 \<notin> set f \<Longrightarrow> replace_quotes f = f"
  by (induction f) (auto simp: replace_quotes_def)

lemma replace_quotes_append: "replace_quotes (a @ b) = replace_quotes a @ replace_quotes b"
  by (simp add: replace_quotes_def)

lemma replace_quotes_Cons:
  "replace_quotes (c # cs) = (if c = CHR 0x27 then CHR 0x22 else c) # replace_quotes cs"
  by (simp add: replace_quotes_def)

lemma replace_quotes_Nil: "replace_quotes [] = []"
  by (simp add: replace_quotes_def)

lemma replace_quotes_join:
  "replace_quotes (join sep xs) = join (replace_quotes sep) (map replace_quotes xs)"
  unfolding replace_quotes_def[abs_def] by (rule map_join)

lemma replace_quotes_js_string:
  "CHR 0x27 \<notin> set f \<Longrightarrow> replace_quotes (js_string f) = CHR 0x22 # f @ [CHR 0x22]"
  by (simp add: js_string_def replace_quotes_append replace_quotes_Cons replace_quotes_Nil
        replace_quotes_plain)

lemma replace_quotes_js_row:
  assumes "\<forall>f \<in> set r. CHR 0x27 \<notin> set f"
  shows "replace_quotes (js_row r)
           = CHR ''['' # join '','' (map (\<lambda>f. CHR 0x22 # f @ [CHR 0x22]) r) @ '']''"
proof -
  have m: "map (\<lambda>f. replace_quotes (js_string f)) r = map (\<lambda>f. CHR 0x22 # f @ [CHR 0x22]) r"
    using assms by (intro map_cong) (auto simp: replace_quotes_js_string)
  show ?thesis
    by (simp add: js_row_def replace_quotes_append replace_quotes_Cons replace_quotes_Nil
          replace_quotes_join comp_def m)
qed

lemma replace_quotes_js_array:
  assumes "\<forall>r \<in> set rows. \<forall>f \<in> set r. CHR 0x27 \<notin> set f"
  shows "replace_quotes (js_array rows)
           = CHR ''['' # join '','' (map (\<lambda>r. CHR ''['' # join '','' (map (\<lambda>f. CHR 0x22 # f @ [CHR 0x22]) r) @ '']'') rows) @ '']''"
proof -
  have m: "map (\<lambda>r. replace_quotes (js_row r)) rows
          = map (\<lambda>r. CHR ''['' # join '','' (map (\<lambda>f. CHR 0x22 # f @ [CHR 0x22]) r) @ '']'') rows"
    using assms by (intro map_cong) (auto simp: replace_quotes_js_row)
  show ?thesis
    by (simp add: js_array_def replace_quotes_append replace_quotes_Cons replace_quotes_Nil
          replace_quotes_join comp_def m)
qed

lemma length_join_ge:
  "\<forall>x \<in> set xs. k \<le> length x \<Longrightarrow> k * length xs \<le> length (join sep xs)"
  by (induction sep xs rule: join.induct) (auto simp: algebra_simps)

lemma json_loads_rows:
  assumes "\<forall>r \<in> set rows. length r = 7 \<and> (\<forall>f \<in> set r. js_plain f)"
  shows "json_loads (replace_quotes (js_array rows))
           = Inr (JArray (map (\<lambda>r. JArray (map JString r)) rows))"
proof (cases rows)
  case Nil
  show ?thesis unfolding Nil by code_simp
next
  case (Cons r0 rs)
  let ?fld = "\<lambda>f. CHR 0x22 # f @ [CHR 0x22]"
  let ?row = "\<lambda>r. CHR ''['' # join '','' (map ?fld r) @ '']''"
  let ?B = "join '','' (map ?row rows)"
  have sq: "\<forall>r \<in> set rows. \<forall>f \<in> set r. CHR 0x27 \<notin> set f"
    using assms by (auto simp: js_plain_def)
  have t: "replace_quotes (js_array rows) = CHR ''['' # ?B @ '']''"
    by (rule replace_quotes_js_array[OF sq])
  have ne: "rows \<noteq> []" using Cons by simp
  have rw: "\<forall>r \<in> set rows. r \<noteq> [] \<and> length r \<le> 7 \<and> (\<forall>f \<in> set r. str_plain f)"
    using assms by (auto simp: js_plain_str_plain)
  have "\<forall>x \<in> set (map ?row rows). 16 \<le> length x"
  proof
    fix x assume "x \<in> set (map ?row rows)"
    then obtain r where r: "r \<in> set rows" and x: "x = ?row r" by auto
    have "\<forall>y \<in> set (map ?fld r). 2 \<le> length y" by simp
    then have "2 * length (map ?fld r) \<le> length (join '','' (map ?fld r))"
      by (rule length_join_ge)
    with r assms show "16 \<le> length x" unfolding x by simp
  qed
  then have "16 * length (map ?row rows) \<le> length ?B" by (rule length_join_ge)
  then have len: "16 * length rows \<le> length ?B" by simp
  from ne have pos: "0 < length rows" by simp
  obtain b where b: "?B = CHR ''['' # b" unfolding Cons by (cases rs) auto
  let ?m = "2 * length (CHR ''['' # ?B @ '']'') + 1"
  have fuel: "length rows + 7 + 1 < ?m"
  proof -
    have "Suc (length rows + 7 + 1) \<le> 2 * (16 * length rows) + 1" using pos by arith
    also have "\<dots> \<le> 2 * length ?B + 1" using len by arith
    also have "\<dots> \<le> ?m" by simp
    finally show ?thesis by simp
  qed
  have pe: "parse_elements ?m (?B @ CHR '']'' # []) = Inr (map (\<lambda>r. JArray (map JString r)) rows, [])"
    by (rule parse_rows[OF ne rw fuel])
  have sk: "skip_ws (?B @ '']'') = CHR ''['' # b @ '']''"
    unfolding b by (simp add: skip_ws_not_ws is_ws_def)
  have pv: "parse_value (Suc ?m) (CHR ''['' # ?B @ '']'')
              = Inr (JArray (map (\<lambda>r. JArray (map JString r)) rows), [])"
    apply (subst parse_value.simps(2))
    apply (simp only: list.case sk)
    using pe unfolding b
    apply (simp add: skip_ws_def del: parse_elements.simps parse_value.simps)
    done
  have f2: "2 * length (CHR ''['' # ?B @ '']'') + 2 = Suc ?m" by simp
  have sk0: "skip_ws (CHR ''['' # ?B @ '']'') = CHR ''['' # ?B @ '']''"
    by (simp add: skip_ws_not_ws is_ws_def)
  show ?thesis
    unfolding json_loads_def t f2 sk0 pv by (simp add: skip_ws_def)
qed

lemma find_script_first:
  assumes "\<forall>t. Some t \<in> set before \<longrightarrow> \<not> has_aDataSet t" and "has_aDataSet script"
  shows "find_script (before @ Some script # after) = Some script"
proof -
  have "List.find (\<lambda>s. case s of Some t \<Rightarrow> has_aDataSet t | None \<Rightarrow> False)
          (before @ Some script # after) = Some (Some script)"
    using assms by (induction before) (auto split: option.splits)
  then show ?thesis by (simp add: find_script_def)
qed

subsection \<open>The file written from the literal\<close>

lemma js_plain_no_lf: "js_plain f \<Longrightarrow> CHR 0x0A \<notin> set f"
  by (auto simp: js_plain_def)

lemma js_plain_csv_plain: "js_plain f \<Longrightarrow> CHR '','' \<notin> set f \<Longrightarrow> csv_plain f"
  by (auto simp: js_plain_def csv_plain_def)

text \<open>
  What the extraction does with a literal in the plainest layout. The server answers with
  status 200; the first script element whose text holds \<^verbatim>\<open>var aDataSet =\<close> holds, at its first
  \<^verbatim>\<open>var aDataSet = [\<close>, the assignment of an array literal of \<open>N\<close> rows of seven fields in
  single quotes, written without blanks and ended by a semicolon; the fields hold no quote of
  either kind, no backslash, no control character and nowhere \<^verbatim>\<open>];\<close>; pandas takes the decoded
  rows of strings as the rows of the table; the path can be written. Then \<^verbatim>\<open>_get_csv\<close> returns
  normally after one request and has written to the path the file whose lines are the header
  \<^verbatim>\<open>HOURLY,HOUR,TEMP,RH,WD,WS,PRECIP\<close> followed by one line for each row, in the order of the
  literal, with the seven fields of the row and no index (a field that holds a comma stands in
  double quotes): \<open>N + 1\<close> lines. When no field holds a comma, the file read back gives the
  rows.
\<close>

lemma extraction_writes_rows:
  assumes u: "url s = Some u" and g: "http_get e u = Inr r" and ok: "status_code r = 200"
    and p: "csv_path s = PyStr p" and wr: "writable e p"
    and scripts: "script_strings e (response_text r)
                    = before @ Some (pre @ ''var aDataSet = '' @ js_array rows @ '';'' @ post) # after"
    and first: "\<forall>t. Some t \<in> set before \<longrightarrow> \<not> has_aDataSet t"
    and pre: "\<not> sublist ''var aDataSet = ['' pre"
    and rows: "\<forall>row \<in> set rows. length row = 7 \<and> (\<forall>f \<in> set row. js_plain f)"
    and df: "DataFrame e (string_rows rows) headers = Inr rows"
  shows "get_csv e s w =
           (Inr (), print ''CSV file has been saved successfully.''
                      (w\<lparr>requests := requests w @ [u],
                         files := (files w)(p \<mapsto> to_csv headers rows)\<rparr>)) \<and>
         file_lines (to_csv headers rows)
           = ''HOURLY,HOUR,TEMP,RH,WD,WS,PRECIP'' # map (\<lambda>row. join '','' (map csv_field row)) rows \<and>
         length (file_lines (to_csv headers rows)) = Suc (length rows) \<and>
         ((\<forall>row \<in> set rows. \<forall>f \<in> set row. CHR '','' \<notin> set f) \<longrightarrow>
            read_back (to_csv headers rows) = rows)"
proof -
  let ?script = "pre @ ''var aDataSet = '' @ js_array rows @ '';'' @ post"
  have fs: "find_script (script_strings e (response_text r)) = Some ?script"
    unfolding scripts by (rule find_script_first[OF first has_aDataSet_literal])
  have nc: "\<forall>r \<in> set rows. \<forall>f \<in> set r. \<not> sublist ''];'' f"
    using rows by (auto simp: js_plain_def)
  have se: "search_aDataSet ?script = Some (js_array rows)"
    by (rule search_aDataSet_literal[OF pre nc])
  have jl: "json_loads (replace_quotes (js_array rows)) = Inr (string_rows rows)"
    unfolding string_rows_def by (rule json_loads_rows[OF rows])
  have 1: "get_csv e s w =
           (Inr (), print ''CSV file has been saved successfully.''
                      (w\<lparr>requests := requests w @ [u],
                         files := (files w)(p \<mapsto> to_csv headers rows)\<rparr>))"
    apply (simp only: get_csv_def u option.case Let_def g sum.case ok simp_thms if_True fs se jl
             df p pyval.case wr prod.case)
    apply (simp add: print_def)
    done
  have lf: "\<forall>r \<in> set rows. \<forall>f \<in> set r. CHR 0x0A \<notin> set f"
    using rows by (auto dest: js_plain_no_lf)
  have 2: "file_lines (to_csv headers rows)
           = ''HOURLY,HOUR,TEMP,RH,WD,WS,PRECIP'' # map (\<lambda>row. join '','' (map csv_field row)) rows"
    by (simp add: file_lines_to_csv[OF lf] header_line)
  have 3: "(\<forall>row \<in> set rows. \<forall>f \<in> set row. CHR '','' \<notin> set f) \<longrightarrow>
            read_back (to_csv headers rows) = rows"
  proof
    assume c: "\<forall>row \<in> set rows. \<forall>f \<in> set row. CHR '','' \<notin> set f"
    have "\<forall>r \<in> set rows. r \<noteq> [] \<and> (\<forall>f \<in> set r. csv_plain f)"
      using rows c by (auto intro: js_plain_csv_plain)
    then show "read_back (to_csv headers rows) = rows" by (rule read_back_plain)
  qed
  from 1 2 3 show ?thesis by simp
qed

lemma extraction_writes_rows_example:
  "files (snd (get_csv (example_env 200 (example_page example_rows))
                 (create_url example_request) empty_world)) ''out.csv''
     = Some (to_csv headers example_rows) \<and>
   fst (get_csv (example_env 200 (example_page example_rows))
          (create_url example_request) empty_world) = Inr () \<and>
   file_lines (to_csv headers example_rows)
     = [''HOURLY,HOUR,TEMP,RH,WD,WS,PRECIP'',
        ''2024-08-06,12:00,15.2,60,270,10,0.0'',
        ''2024-08-06,13:00,16.0,58,275,12,0.0'']"
proof -
  let ?u = "''https://spotwx.com/products/grib_index.php?model=gfs_pgrb2&lat=51.0&lon=-114.0&tz=America/Edmonton&display=table''"
  let ?r = "\<lparr>status_code = 200, response_text = example_page example_rows\<rparr>"
  let ?e = "example_env 200 (example_page example_rows)"
  have u: "url (create_url example_request) = Some ?u" by code_simp
  have g: "http_get ?e ?u = Inr ?r" by (simp add: example_env_def)
  have ok: "status_code ?r = 200" by simp
  have p: "csv_path (create_url example_request) = PyStr ''out.csv''"
    by (simp add: create_url_def example_request_def init_def Let_def)
  have wr: "writable ?e ''out.csv''" by (simp add: example_env_def)
  have sc: "script_strings ?e (response_text ?r)
              = [] @ Some ([] @ ''var aDataSet = '' @ js_array example_rows @ '';'' @ []) # []"
    by (simp add: example_env_def example_page_def)
  have first: "\<forall>t. Some t \<in> set [] \<longrightarrow> \<not> has_aDataSet t" by simp
  have pre: "\<not> sublist ''var aDataSet = ['' []" by simp
  have rows: "\<forall>row \<in> set example_rows. length row = 7 \<and> (\<forall>f \<in> set row. js_plain f)"
    by code_simp
  have df: "DataFrame ?e (string_rows example_rows) headers = Inr example_rows"
    unfolding example_env_def by code_simp
  have l: "map (\<lambda>row. join '','' (map csv_field row)) example_rows
             = [''2024-08-06,12:00,15.2,60,270,10,0.0'', ''2024-08-06,13:00,16.0,58,275,12,0.0'']"
    by code_simp
  from extraction_writes_rows[OF u g ok p wr sc first pre rows df, of empty_world] l
  show ?thesis by (simp add: print_def)
qed

text \<open>
  C7 fails on the code. The regular expression wants the closing bracket of the literal
  followed at once by the semicolon, and its match is used unchecked: for the two example rows
  written with a blank before the semicolon, \<^verbatim>\<open>_get_csv\<close> ends with the \<^verbatim>\<open>AttributeError\<close> of
  \<^verbatim>\<open>None.group\<close>. The text it cuts out is handed to the JSON decoder with no more than the
  single quotes replaced: a comma after the last row, a field \<^verbatim>\<open>a];b\<close>, which ends the lazy
  match inside the literal, a field with a backslash that starts no JSON escape and a field with
  a tab make \<^verbatim>\<open>json.loads\<close> raise; so does a comment that mentions \<^verbatim>\<open>var aDataSet = [\<close> before
  the literal. All these fields hold no quote. In each case no file is written.
\<close>

theorem literal_rows_not_written:
  "list_all (list_all quote_free) example_rows \<and>
   fst (get_csv (example_env 200 (''var aDataSet = '' @ js_array example_rows @ '' ;''))
          (create_url example_request) empty_world)
     = Inl (AttributeError ([CHR 0x27] @ ''NoneType'' @ [CHR 0x27] @ '' object has no attribute ''
                            @ [CHR 0x27] @ ''group'' @ [CHR 0x27])) \<and>
   files (snd (get_csv (example_env 200 (''var aDataSet = '' @ js_array example_rows @ '' ;''))
                 (create_url example_request) empty_world)) ''out.csv'' = None \<and>
   fst (get_csv (example_env 200 (''var aDataSet = ['' @ js_row (hd example_rows) @ '',];''))
          (create_url example_request) empty_world) = Inl JSONDecodeError \<and>
   files (snd (get_csv (example_env 200 (''var aDataSet = ['' @ js_row (hd example_rows) @ '',];''))
                 (create_url example_request) empty_world)) ''out.csv'' = None \<and>
   list_all quote_free [''a];b'', ''1'', ''2'', ''3'', ''4'', ''5'', ''6''] \<and>
   fst (get_csv (example_env 200 (example_page [[''a];b'', ''1'', ''2'', ''3'', ''4'', ''5'', ''6'']]))
          (create_url example_request) empty_world) = Inl JSONDecodeError \<and>
   files (snd (get_csv (example_env 200 (example_page [[''a];b'', ''1'', ''2'', ''3'', ''4'', ''5'', ''6'']]))
                 (create_url example_request) empty_world)) ''out.csv'' = None \<and>
   list_all quote_free [[CHR ''a'', CHR 0x5C, CHR ''q''], ''1'', ''2'', ''3'', ''4'', ''5'', ''6''] \<and>
   fst (get_csv (example_env 200 (example_page [[[CHR ''a'', CHR 0x5C, CHR ''q''], ''1'', ''2'', ''3'', ''4'', ''5'', ''6'']]))
          (create_url example_request) empty_world) = Inl JSONDecodeError \<and>
   list_all quote_free [[CHR ''a'', CHR 0x09, CHR ''b''], ''1'', ''2'', ''3'', ''4'', ''5'', ''6''] \<and>
   fst (get_csv (example_env 200 (example_page [[[CHR ''a'', CHR 0x09, CHR ''b''], ''1'', ''2'', ''3'', ''4'', ''5'', ''6'']]))
          (create_url example_request) empty_world) = Inl JSONDecodeError \<and>
   fst (get_csv (example_env 200 (''// var aDataSet = [old];'' @ example_page example_rows))
          (create_url example_request) empty_world) = Inl JSONDecodeError"
  by code_simp

end
